theory Spec2Isabelle
  imports Complex_Main "HOL-Library.Sublist"
begin

section \<open>Python values\<close>

text \<open>
  A Python \<^verbatim>\<open>str\<close> is modelled as a \<^typ>\<open>string\<close> holding its UTF-8 encoding, so the
  Vietnamese literals of the source are byte lists. Equality, concatenation, the
  substring test and \<^verbatim>\<open>replace\<close> with ASCII patterns agree on the encoding and on the
  code points. The Unicode-aware methods (\<^verbatim>\<open>lower\<close>, \<^verbatim>\<open>upper\<close>, \<^verbatim>\<open>strip\<close>, \<^verbatim>\<open>isdigit\<close>)
  and the float parser are builtins of the interpreter, not code of the repository:
  they are parameters of the model (record \<open>builtins\<close>).
\<close>

datatype pyfloat = FNaN | FInf bool | FFin rat

datatype pyval = VNone | VStr string | VInt int | VFloat pyfloat

datatype pyerr =
    AttributeError string
  | ValueError string
  | TypeError string
  | OverflowError string
  | KeyError string
  | IndexError string
  | RequestException string "string option"

record builtins =
  str_lower :: "string \<Rightarrow> string"
  str_upper :: "string \<Rightarrow> string"
  str_strip :: "string \<Rightarrow> string"
  str_isdigit :: "string \<Rightarrow> bool"
  float_of_str :: "string \<Rightarrow> pyfloat option"
  float_of_big_int :: "int \<Rightarrow> pyfloat option"
  str_of_float :: "pyfloat \<Rightarrow> string"

text \<open>\<^verbatim>\<open>str(e)\<close> of an exception: its message.\<close>

fun exc_message :: "pyerr \<Rightarrow> string" where
  "exc_message (AttributeError m) = m"
| "exc_message (ValueError m) = m"
| "exc_message (TypeError m) = m"
| "exc_message (OverflowError m) = m"
| "exc_message (KeyError m) = m"
| "exc_message (IndexError m) = m"
| "exc_message (RequestException m b) = m"

text \<open>\<^verbatim>\<open>isinstance(e, requests.RequestException)\<close>.\<close>

fun is_request_exception :: "pyerr \<Rightarrow> bool" where
  "is_request_exception (RequestException m b) = True"
| "is_request_exception e = False"

subsection \<open>String literals of the source (UTF-8)\<close>

definition s_Trong :: string where
  "s_Trong = ''Tr'' @ [CHR 0xE1, CHR 0xBB, CHR 0x91] @ ''ng''"

definition s_co :: string where
  "s_co = ''c'' @ [CHR 0xC3, CHR 0xB3]"

definition s_support_co :: string where
  "s_support_co = ''support = c'' @ [CHR 0xC3, CHR 0xB3]"

definition s_khong_bat_buoc :: string where
  "s_khong_bat_buoc = ''kh'' @ [CHR 0xC3, CHR 0xB4] @ ''ng b'' @ [CHR 0xE1, CHR 0xBA, CHR 0xAF]
     @ ''t bu'' @ [CHR 0xE1, CHR 0xBB, CHR 0x99] @ ''c''"

definition s_Khong_bat_buoc :: string where
  "s_Khong_bat_buoc = ''Kh'' @ [CHR 0xC3, CHR 0xB4] @ ''ng b'' @ [CHR 0xE1, CHR 0xBA, CHR 0xAF]
     @ ''t bu'' @ [CHR 0xE1, CHR 0xBB, CHR 0x99] @ ''c''"

definition s_Cai :: string where
  "s_Cai = ''C'' @ [CHR 0xC3, CHR 0xA1] @ ''i''"

definition s_Text_co_dinh :: string where
  "s_Text_co_dinh = ''Text c'' @ [CHR 0xE1, CHR 0xBB, CHR 0x91] @ '' ''
     @ [CHR 0xC4, CHR 0x91, CHR 0xE1, CHR 0xBB, CHR 0x8B] @ ''nh''"

definition s_infinity :: string where
  "s_infinity = [CHR 0xE2, CHR 0x88, CHR 0x9E]"

definition s_Ma_san_pham :: string where
  "s_Ma_san_pham = ''M'' @ [CHR 0xC3, CHR 0xA3] @ '' s'' @ [CHR 0xE1, CHR 0xBA, CHR 0xA3]
     @ ''n ph'' @ [CHR 0xE1, CHR 0xBA, CHR 0xA9] @ ''m''"

definition s_Ten_san_pham :: string where
  "s_Ten_san_pham = ''T'' @ [CHR 0xC3, CHR 0xAA] @ ''n s'' @ [CHR 0xE1, CHR 0xBA, CHR 0xA3]
     @ ''n ph'' @ [CHR 0xE1, CHR 0xBA, CHR 0xA9] @ ''m''"

definition s_Gia_hang_hoa :: string where
  "s_Gia_hang_hoa = ''Gi'' @ [CHR 0xC3, CHR 0xA1] @ '' h'' @ [CHR 0xC3, CHR 0xA0] @ ''ng h''
     @ [CHR 0xC3, CHR 0xB3] @ ''a''"

definition s_Dung_luong :: string where
  "s_Dung_luong = ''Dung l'' @ [CHR 0xC6, CHR 0xB0, CHR 0xE1, CHR 0xBB, CHR 0xA3] @ ''ng t''
     @ [CHR 0xE1, CHR 0xBB, CHR 0x91] @ ''c '' @ [CHR 0xC4, CHR 0x91, CHR 0xE1, CHR 0xBB, CHR 0x99]
     @ '' cao''"

definition s_Loai_goi :: string where
  "s_Loai_goi = ''Lo'' @ [CHR 0xE1, CHR 0xBA, CHR 0xA1] @ ''i g'' @ [CHR 0xC3, CHR 0xB3] @ ''i''"

definition s_eKYC :: string where
  "s_eKYC = ''eKYC (X'' @ [CHR 0xC3, CHR 0xA1] @ ''c minh danh t'' @ [CHR 0xC3, CHR 0xAD]
     @ ''nh)''"

definition s_Het_toc_do :: string where
  "s_Het_toc_do = ''H'' @ [CHR 0xE1, CHR 0xBA, CHR 0xBF] @ ''t t'' @ [CHR 0xE1, CHR 0xBB, CHR 0x91]
     @ ''c '' @ [CHR 0xC4, CHR 0x91, CHR 0xE1, CHR 0xBB, CHR 0x99] @ '' cao gi''
     @ [CHR 0xE1, CHR 0xBA, CHR 0xA3] @ ''m xu'' @ [CHR 0xE1, CHR 0xBB, CHR 0x91] @ ''ng''"

definition s_Chia_se_Wifi :: string where
  "s_Chia_se_Wifi = ''Chia s'' @ [CHR 0xE1, CHR 0xBA, CHR 0xBB] @ '' Wifi''"

definition s_Loai_SIM :: string where
  "s_Loai_SIM = ''Lo'' @ [CHR 0xE1, CHR 0xBA, CHR 0xA1] @ ''i SIM''"

definition s_Pham_vi :: string where
  "s_Pham_vi = ''Ph'' @ [CHR 0xE1, CHR 0xBA, CHR 0xA1] @ ''m vi ph'' @ [CHR 0xE1, CHR 0xBB, CHR 0xA7]
     @ '' s'' @ [CHR 0xC3, CHR 0xB3] @ ''ng''"

definition s_So_ngay :: string where
  "s_So_ngay = ''S'' @ [CHR 0xE1, CHR 0xBB, CHR 0x91] @ '' ng'' @ [CHR 0xC3, CHR 0xA0] @ ''y s''
     @ [CHR 0xE1, CHR 0xBB, CHR 0xAD] @ '' d'' @ [CHR 0xE1, CHR 0xBB, CHR 0xA5] @ ''ng''"

definition s_Nha_cung_cap :: string where
  "s_Nha_cung_cap = ''Nh'' @ [CHR 0xC3, CHR 0xA0] @ '' cung c'' @ [CHR 0xE1, CHR 0xBA, CHR 0xA5]
     @ ''p''"

definition s_description_vi :: string where
  "s_description_vi = ''Th'' @ [CHR 0xE1, CHR 0xBB, CHR 0x9D] @ ''i gian s''
     @ [CHR 0xE1, CHR 0xBB, CHR 0xAD] @ '' d'' @ [CHR 0xE1, CHR 0xBB, CHR 0xA5] @ ''ng l''
     @ [CHR 0xC3, CHR 0xA0] @ '' s'' @ [CHR 0xE1, CHR 0xBB, CHR 0x91] @ '' ng''
     @ [CHR 0xC3, CHR 0xA0] @ ''y k'' @ [CHR 0xE1, CHR 0xBB, CHR 0x83] @ '' t''
     @ [CHR 0xE1, CHR 0xBB, CHR 0xAB] @ '' ng'' @ [CHR 0xC3, CHR 0xA0] @ ''y k''
     @ [CHR 0xC3, CHR 0xAD] @ ''ch ho'' @ [CHR 0xE1, CHR 0xBA, CHR 0xA1] @ ''t''"

definition s_description_en :: string where
  "s_description_en = ''The usage period is the number of days from the activation date.''"

subsection \<open>String operations that do not depend on Unicode tables\<close>

text \<open>\<^verbatim>\<open>sub in s\<close> on strings: \<open>sub\<close> occurs in \<open>s\<close> as a contiguous block.\<close>

fun py_in :: "string \<Rightarrow> string \<Rightarrow> bool" where
  "py_in sub [] = (sub = [])"
| "py_in sub (c # s) = (prefix sub (c # s) \<or> py_in sub s)"

text \<open>
  \<^verbatim>\<open>s.replace(old, new)\<close>: the occurrences of \<open>old\<close> are replaced from left to right
  without overlap; the empty pattern matches before every character and at the end.
\<close>

function py_replace :: "string \<Rightarrow> string \<Rightarrow> string \<Rightarrow> string" where
  "py_replace old new [] = (if old = [] then new else [])"
| "py_replace old new (c # s) =
     (if old = [] then new @ c # py_replace old new s
      else if prefix old (c # s) then new @ py_replace old new (drop (length old) (c # s))
      else c # py_replace old new s)"
  by pat_completeness auto
termination
  by (relation "measure (\<lambda>(old, new, s). length s)") (auto simp: neq_Nil_conv)

definition digit_char :: "nat \<Rightarrow> char" where
  "digit_char d = ''0123456789'' ! d"

fun str_of_nat :: "nat \<Rightarrow> string" where
  "str_of_nat n = (if n < 10 then [digit_char n] else str_of_nat (n div 10) @ [digit_char (n mod 10)])"

declare str_of_nat.simps [simp del]

text \<open>\<^verbatim>\<open>str(n)\<close> of an integer.\<close>

definition str_of_int :: "int \<Rightarrow> string" where
  "str_of_int i = (if i < 0 then ''-'' @ str_of_nat (nat (- i)) else str_of_nat (nat i))"

definition quote :: string where
  "quote = [CHR 0x27]"

subsection \<open>Operations on values\<close>

text \<open>\<^verbatim>\<open>pd.isna\<close> on a scalar: None and the float NaN are missing.\<close>

fun isna :: "pyval \<Rightarrow> bool" where
  "isna VNone = True"
| "isna (VFloat FNaN) = True"
| "isna v = False"

text \<open>Truth value of an object: \<^verbatim>\<open>bool(nan)\<close> is True.\<close>

fun truthy :: "pyval \<Rightarrow> bool" where
  "truthy VNone = False"
| "truthy (VStr s) = (s \<noteq> [])"
| "truthy (VInt i) = (i \<noteq> 0)"
| "truthy (VFloat (FFin r)) = (r \<noteq> 0)"
| "truthy (VFloat f) = True"

fun type_name :: "pyval \<Rightarrow> string" where
  "type_name VNone = ''NoneType''"
| "type_name (VStr s) = ''str''"
| "type_name (VInt i) = ''int''"
| "type_name (VFloat f) = ''float''"

text \<open>\<^verbatim>\<open>isinstance(v, str)\<close>.\<close>

fun is_str :: "pyval \<Rightarrow> bool" where
  "is_str (VStr s) = True"
| "is_str v = False"

text \<open>The AttributeError of a method call on an object that is not a \<^verbatim>\<open>str\<close>.\<close>

definition no_attribute :: "pyval \<Rightarrow> string \<Rightarrow> pyerr" where
  "no_attribute v a =
     AttributeError (quote @ type_name v @ quote @ '' object has no attribute '' @ quote @ a @ quote)"

text \<open>\<^verbatim>\<open>str(v)\<close>.\<close>

fun py_str :: "builtins \<Rightarrow> pyval \<Rightarrow> string" where
  "py_str B VNone = ''None''"
| "py_str B (VStr s) = s"
| "py_str B (VInt i) = str_of_int i"
| "py_str B (VFloat f) = str_of_float B f"

text \<open>
  \<^verbatim>\<open>repr(v)\<close>, for a \<^verbatim>\<open>str\<close> that holds no quote, backslash or control character.
\<close>

definition py_repr :: "builtins \<Rightarrow> pyval \<Rightarrow> string" where
  "py_repr B v = (case v of VStr s \<Rightarrow> quote @ s @ quote | _ \<Rightarrow> py_str B v)"

text \<open>
  \<^verbatim>\<open>float(v)\<close>. An integer up to \<open>2^53\<close> in absolute value is a float exactly; beyond
  that the interpreter rounds or raises OverflowError.
\<close>

fun py_float :: "builtins \<Rightarrow> pyval \<Rightarrow> pyerr + pyfloat" where
  "py_float B VNone = Inl (TypeError ''float() argument must be a string or a real number'')"
| "py_float B (VStr s) =
     (case float_of_str B s of
        None \<Rightarrow> Inl (ValueError ''could not convert string to float'')
      | Some f \<Rightarrow> Inr f)"
| "py_float B (VInt i) =
     (if \<bar>i\<bar> \<le> 2 ^ 53 then Inr (FFin (of_int i))
      else (case float_of_big_int B i of
              None \<Rightarrow> Inl (OverflowError ''int too large to convert to float'')
            | Some f \<Rightarrow> Inr f))"
| "py_float B (VFloat f) = Inr f"

text \<open>\<^verbatim>\<open>int(f)\<close> of a float: truncation towards zero; NaN and the infinities raise.\<close>

fun py_int_of_float :: "pyfloat \<Rightarrow> pyerr + int" where
  "py_int_of_float FNaN = Inl (ValueError ''cannot convert float NaN to integer'')"
| "py_int_of_float (FInf b) = Inl (OverflowError ''cannot convert float infinity to integer'')"
| "py_int_of_float (FFin r) = Inr (if 0 \<le> r then \<lfloor>r\<rfloor> else \<lceil>r\<rceil>)"

section \<open>The value normalizer\<close>

text \<open>
  \<^verbatim>\<open>BCSSAPIIntegration._process_mapping_value\<close>. The result is None or a \<^verbatim>\<open>str\<close>,
  hence a \<^typ>\<open>string option\<close>; \<open>Inl\<close> is a raised exception. The \<^verbatim>\<open>elif\<close> chain
  evaluates \<^verbatim>\<open>notes.lower()\<close> whenever \<^verbatim>\<open>notes\<close> is truthy, which raises for a note
  that is not a \<^verbatim>\<open>str\<close>.
\<close>

definition process_mapping_value :: "builtins \<Rightarrow> pyval \<Rightarrow> pyval \<Rightarrow> pyerr + string option" where
  "process_mapping_value B mapping_value notes =
     (if isna mapping_value \<or> mapping_value = VStr s_Trong \<or> mapping_value = VStr [] then Inr None
      else (case mapping_value of
              VStr s \<Rightarrow>
                (let mapping_str = str_strip B (str_lower B s) in
                 if py_in ''support'' mapping_str then Inr (Some ''1'')
                 else if truthy notes then
                   (case notes of
                      VStr n \<Rightarrow>
                        if py_in s_support_co (str_lower B n)
                        then Inr (Some (if mapping_str = s_co \<or> mapping_str = ''yes'' then ''1'' else ''0''))
                        else if py_in s_khong_bat_buoc mapping_str then Inr (Some ''0'')
                        else Inr (Some s)
                    | _ \<Rightarrow> Inl (no_attribute notes ''lower''))
                 else if py_in s_khong_bat_buoc mapping_str then Inr (Some ''0'')
                 else Inr (Some s))
            | _ \<Rightarrow> Inr (Some (py_str B mapping_value))))"

section \<open>Mapping configuration, rows and payloads\<close>

text \<open>
  One entry of \<^verbatim>\<open>self.mapping_data\<close>: the cells of the mapping sheet as pandas read them,
  so an empty cell is the float NaN and a numeric cell is a number.
\<close>

record mapping_entry =
  excel_mapping :: pyval
  mapping_notes :: pyval

type_synonym mapping_data = "string \<rightharpoonup> mapping_entry"

text \<open>
  A product row (\<^verbatim>\<open>pd.Series\<close>): the column labels in sheet order with their cells.
  \<^verbatim>\<open>read_excel\<close> makes the label of a column from its header cell: a \<^verbatim>\<open>str\<close> for a text
  header (also for an empty header and for a repeated one, which it renames), an \<^verbatim>\<open>int\<close>
  or a \<^verbatim>\<open>float\<close> for a numeric header. So a label is a value, and the labels of a row are
  distinct.
\<close>

type_synonym excel_row = "(pyval \<times> pyval) list"

text \<open>
  Equality of a label and a key as the index decides it, by hash and \<^verbatim>\<open>==\<close>: an
  \<^verbatim>\<open>int\<close> and a \<^verbatim>\<open>float\<close> of the same value are the same key, and a \<^verbatim>\<open>str\<close> is equal
  only to the same \<^verbatim>\<open>str\<close>. The code looks up no key that is None or NaN: a configured
  column is guarded by \<^verbatim>\<open>pd.notna\<close>, and a label of the row is looked up only after a
  method of \<^verbatim>\<open>str\<close> has been called on it.
\<close>

fun label_eq :: "pyval \<Rightarrow> pyval \<Rightarrow> bool" where
  "label_eq (VInt i) (VFloat (FFin r)) = (of_int i = r)"
| "label_eq (VFloat (FFin r)) (VInt i) = (of_int i = r)"
| "label_eq a b = (a = b)"

text \<open>The cell of the first column whose label is the key.\<close>

fun find_label :: "excel_row \<Rightarrow> pyval \<Rightarrow> pyval option" where
  "find_label [] c = None"
| "find_label ((l, v) # rest) c = (if label_eq l c then Some v else find_label rest c)"

text \<open>
  \<^verbatim>\<open>excel_col in excel_row.index\<close> followed by \<^verbatim>\<open>excel_row[excel_col]\<close>; None when the
  key is not among the labels.
\<close>

definition lookup_col :: "excel_row \<Rightarrow> pyval \<Rightarrow> pyval option" where
  "lookup_col row c = find_label row c"

text \<open>\<^verbatim>\<open>excel_row[col]\<close> for a label: KeyError when the label is absent.\<close>

definition row_get :: "builtins \<Rightarrow> excel_row \<Rightarrow> pyval \<Rightarrow> pyerr + pyval" where
  "row_get B row col =
     (case find_label row col of None \<Rightarrow> Inl (KeyError (py_repr B col)) | Some v \<Rightarrow> Inr v)"

record price_dto =
  price :: pyval
  fromDate :: "string option"
  toDate :: "string option"
  dto_id :: "int option"

record attribute_entry =
  attr_id :: "int option"
  productCategoryAttributeId :: int
  productCategoryAttributeValueId :: string
  attributeValue :: pyval

text \<open>
  The payload dictionary. A key that may be missing is an option: \<open>weight = Some VNone\<close>
  is the key with the value null, \<open>weight = None\<close> is the key deleted.
\<close>

record payload =
  productCode :: string
  productName :: string
  pckCode :: "string option"
  parentId :: int
  productUom :: string
  weight :: "pyval option"
  checkQuantity :: int
  checkSerial :: int
  productStatus :: int
  productDescription :: string
  productCategoryId :: int
  productPriceDTOS :: "price_dto list"
  productVatDTOS :: "price_dto list"
  attributeValueList :: "attribute_entry list"
  productDescriptionEn :: string
  payload_id :: "int option"
  productType :: int

definition get_default_api_payload :: payload where
  "get_default_api_payload =
     \<lparr> productCode = [], productName = [], pckCode = None, parentId = 561,
       productUom = ''01'', weight = Some VNone, checkQuantity = 1, checkSerial = 1,
       productStatus = 1, productDescription = [], productCategoryId = 101,
       productPriceDTOS = [\<lparr> price = VInt 0, fromDate = None, toDate = None, dto_id = None \<rparr>],
       productVatDTOS = [\<lparr> price = VInt 10, fromDate = None, toDate = None, dto_id = None \<rparr>],
       attributeValueList = [], productDescriptionEn = [], payload_id = None,
       productType = 1 \<rparr>"

definition get_attribute_mapping :: "(string \<times> int) list" where
  "get_attribute_mapping =
     [(s_Dung_luong, 101), (s_Loai_goi, 102), (s_eKYC, 103), (s_Het_toc_do, 104),
      (s_Chia_se_Wifi, 105), (s_Loai_SIM, 106), (s_Pham_vi, 107), (''SKUID'', 108),
      (s_So_ngay, 109), (s_Nha_cung_cap, 110)]"

definition national_area_table :: "(string \<times> int) list" where
  "national_area_table = [
    (''Thailand'', 21), (''Japan'', 27), (''Taiwan'', 32), (''Vietnam'', 35),
     (''Netherlands'', 49), (''Belgium'', 50), (''Spain'', 52), (''Estonia'', 67),
     (''Asia 10 countries'', 98), (''USA, Canada'', 115), (''Madagascar'', 125),
     (''Brazil'', 22), (''Egypt'', 24), (''India'', 25), (''Philippines'', 31), (''UAE'', 33),
     (''USA'', 34), (''HongKong'', 36), (''Malaysia'', 38), (''Singapore'', 39),
     (''Sri Lanka'', 43), (''Uzbekistan'', 44), (''Greece'', 48), (''France'', 51),
     (''Hungary'', 53), (''Croatia'', 54), (''Italy'', 55), (''Switzerland'', 57),
     (''Czech'', 58), (''United Kingdom'', 60), (''Norway'', 63), (''Portugal'', 70),
     (''Luxembourg'', 71), (''Republic of Ireland'', 72), (''Iceland'', 73), (''Turkey'', 77),
     (''Liechtenstein'', 79), (''Kuwait'', 81), (''Kazakhstan'', 84), (''Nicaragua'', 87),
     (''Peru'', 89), (''Argentina'', 90), (''Chile'', 91), (''Columbia'', 92),
     (''Ecuador'', 93), (''French Guiana'', 94), (''Mexico'', 96), (''Canada'', 97),
     (''Asia 19 countries'', 100), (''China Mainland, Macao'', 105),
     (''Singapore, Malaysia, Thailand'', 113), (''South America 11 countries'', 161),
     (''Denmark'', 61), (''Lithuania'', 65), (''Latvia'', 66),
     (''Australia, New Zealand'', 102), (''Brazil, Chile'', 103),
     (''China Mainland, Hong Kong, Macao'', 104), (''Europe 33 Countries'', 106),
     (''Austria'', 107), (''Indonesia, Singapore, Malaysia, Thailand'', 109),
     (''Jordan, Kuwait, Oman'', 110), (''Singapore, Malaysia, Indonesia'', 112),
     (''World Primary 70 Countries'', 117), (''Saudi Arabia'', 118), (''Qatar'', 119),
     (''New Zealand'', 120), (''Morocco'', 121), (''Tunisia'', 122), (''Seychelles'', 123),
     (''Kenya'', 124), (''South Africa'', 126), (''Costa Rica'', 127), (''Macau'', 37),
     (''Cambodia'', 40), (''Mongolia'', 30), (''New Zealnd'', 47), (''Slovakia'', 59),
     (''Poland'', 68), (''Malta'', 74), (''Cyprus'', 75), (''Jordan'', 80), (''Russia'', 83),
     (''Asia 14 countries'', 99), (''China Mainland'', 23), (''Israel'', 26), (''Korea'', 28),
     (''Laos'', 29), (''Indonesia'', 41), (''Pakistan'', 42), (''Kyrgyzstan'', 45),
     (''Australia'', 46), (''Romania'', 56), (''Sweden'', 62), (''Finland'', 64),
     (''Germany'', 69), (''Bulgari'', 76), (''Slovenia'', 78), (''Oman'', 82),
     (''Martinique Island'', 85), (''El Salvado'', 86), (''Panama'', 88), (''Uruguay'', 95),
     (''Asia 6 countries'', 101), (''Hong Kong, Macao'', 108),
     (''Russia, Kazakhstan, Uzbekistan, Pakistan'', 111), (''South America 12 countries'', 114),
     (''USA, Mexico'', 116)]"

definition get_national_area_mapping :: "string \<rightharpoonup> int" where
  "get_national_area_mapping = map_of national_area_table"

section \<open>The field and attribute mapper\<close>

subsection \<open>Simple fields\<close>

datatype api_field = F_productCode | F_productName | F_pckCode

fun set_api_field :: "api_field \<Rightarrow> string \<Rightarrow> payload \<Rightarrow> payload" where
  "set_api_field F_productCode v p = p\<lparr>productCode := v\<rparr>"
| "set_api_field F_productName v p = p\<lparr>productName := v\<rparr>"
| "set_api_field F_pckCode v p = p\<lparr>pckCode := Some v\<rparr>"

definition field_mappings :: "(string \<times> api_field) list" where
  "field_mappings =
     [(s_Ma_san_pham, F_productCode), (s_Ten_san_pham, F_productName),
      (''SKY package code'', F_pckCode)]"

text \<open>The loop over \<^verbatim>\<open>field_mappings.items()\<close>.\<close>

fun apply_field_mappings ::
  "builtins \<Rightarrow> mapping_data \<Rightarrow> excel_row \<Rightarrow> (string \<times> api_field) list \<Rightarrow> payload \<Rightarrow> pyerr + payload"
where
  "apply_field_mappings B md row [] p = Inr p"
| "apply_field_mappings B md row ((bcss_field, api_field) # rest) p =
     (case md bcss_field of
        None \<Rightarrow> apply_field_mappings B md row rest p
      | Some m \<Rightarrow>
          (if isna (excel_mapping m) then apply_field_mappings B md row rest p
           else (case lookup_col row (excel_mapping m) of
                   None \<Rightarrow> apply_field_mappings B md row rest p
                 | Some cell \<Rightarrow>
                     (case process_mapping_value B cell (mapping_notes m) of
                        Inl e \<Rightarrow> Inl e
                      | Inr None \<Rightarrow> apply_field_mappings B md row rest p
                      | Inr (Some v) \<Rightarrow>
                          apply_field_mappings B md row rest (set_api_field api_field v p)))))"

subsection \<open>Price and VAT\<close>

text \<open>\<^verbatim>\<open>payload[key][0]["price"] = v\<close>: IndexError on an empty list.\<close>

definition set_first_price :: "pyval \<Rightarrow> price_dto list \<Rightarrow> pyerr + price_dto list" where
  "set_first_price v ds =
     (case ds of
        [] \<Rightarrow> Inl (IndexError ''list index out of range'')
      | d # rest \<Rightarrow> Inr (d\<lparr>price := v\<rparr> # rest))"

text \<open>The handler \<^verbatim>\<open>except (ValueError, TypeError)\<close>.\<close>

fun is_value_or_type_error :: "pyerr \<Rightarrow> bool" where
  "is_value_or_type_error (ValueError m) = True"
| "is_value_or_type_error (TypeError m) = True"
| "is_value_or_type_error e = False"

text \<open>
  \<^verbatim>\<open>try: dtos[0]["price"] = float(cell)\<close> with
  \<^verbatim>\<open>except (ValueError, TypeError): dtos[0]["price"] = fallback\<close>.
\<close>

definition assign_price :: "builtins \<Rightarrow> pyval \<Rightarrow> pyval \<Rightarrow> price_dto list \<Rightarrow> pyerr + price_dto list" where
  "assign_price B fallback cell ds =
     (case py_float B cell of
        Inr f \<Rightarrow> set_first_price (VFloat f) ds
      | Inl e \<Rightarrow> if is_value_or_type_error e then set_first_price fallback ds else Inl e)"

definition map_price :: "builtins \<Rightarrow> mapping_data \<Rightarrow> excel_row \<Rightarrow> payload \<Rightarrow> pyerr + payload" where
  "map_price B md row p =
     (case md s_Gia_hang_hoa of
        None \<Rightarrow> Inr p
      | Some m \<Rightarrow>
          (if isna (excel_mapping m) then Inr p
           else (case lookup_col row (excel_mapping m) of
                   None \<Rightarrow> Inr p
                 | Some price_value \<Rightarrow>
                     if isna price_value then Inr p
                     else (case assign_price B (VInt 0) price_value (productPriceDTOS p) of
                             Inl e \<Rightarrow> Inl e
                           | Inr ds \<Rightarrow> Inr (p\<lparr>productPriceDTOS := ds\<rparr>)))))"

definition map_vat :: "builtins \<Rightarrow> mapping_data \<Rightarrow> excel_row \<Rightarrow> payload \<Rightarrow> pyerr + payload" where
  "map_vat B md row p =
     (case md ''VAT'' of
        None \<Rightarrow> Inr p
      | Some m \<Rightarrow>
          (if isna (excel_mapping m) then Inr p
           else (case lookup_col row (excel_mapping m) of
                   None \<Rightarrow> Inr p
                 | Some vat_value \<Rightarrow>
                     if isna vat_value then Inr p
                     else (case assign_price B (VInt 10) vat_value (productVatDTOS p) of
                             Inl e \<Rightarrow> Inl e
                           | Inr ds \<Rightarrow> Inr (p\<lparr>productVatDTOS := ds\<rparr>)))))"

subsection \<open>Attribute resolution\<close>

text \<open>The result of the normalizer stored in \<^verbatim>\<open>attribute_value\<close>.\<close>

definition opt_value :: "string option \<Rightarrow> pyval" where
  "opt_value r = (case r of None \<Rightarrow> VNone | Some s \<Rightarrow> VStr s)"

text \<open>
  \<^verbatim>\<open>value = self._process_mapping_value(cell, notes)\<close> followed by
  \<^verbatim>\<open>if value is not None: attribute_value = value\<close>, where \<^verbatim>\<open>attribute_value\<close> is still
  the empty string.
\<close>

definition normalized_or_empty :: "builtins \<Rightarrow> pyval \<Rightarrow> pyval \<Rightarrow> pyerr + pyval" where
  "normalized_or_empty B cell notes =
     (case process_mapping_value B cell notes of
        Inl e \<Rightarrow> Inl e
      | Inr None \<Rightarrow> Inr (VStr [])
      | Inr (Some s) \<Rightarrow> Inr (VStr s))"

text \<open>
  The loop \<^verbatim>\<open>for col in excel_row.index\<close> that looks for a column with a similar name:
  the first column whose lowered name contains, or is contained in, the lowered
  \<^verbatim>\<open>excel_col\<close> decides, and the loop breaks there. The test evaluates
  \<^verbatim>\<open>excel_col.lower()\<close> and then \<^verbatim>\<open>col.lower()\<close>, each of which raises on an object
  that is not a \<^verbatim>\<open>str\<close>.
\<close>

fun similar_column :: "builtins \<Rightarrow> excel_row \<Rightarrow> pyval \<Rightarrow> pyval \<Rightarrow> pyval list \<Rightarrow> pyerr + pyval" where
  "similar_column B row excel_col notes [] = Inr (VStr [])"
| "similar_column B row excel_col notes (col # cols) =
     (case excel_col of
        VStr ec \<Rightarrow>
          (case col of
             VStr name \<Rightarrow>
               if py_in (str_lower B ec) (str_lower B name) \<or> py_in (str_lower B name) (str_lower B ec)
               then (case row_get B row col of
                       Inl e \<Rightarrow> Inl e
                     | Inr cell \<Rightarrow> normalized_or_empty B cell notes)
               else similar_column B row excel_col notes cols
           | _ \<Rightarrow> Inl (no_attribute col ''lower''))
      | _ \<Rightarrow> Inl (no_attribute excel_col ''lower''))"

text \<open>
  The body of \<^verbatim>\<open>if pd.notna(excel_col):\<close> in the attribute loop, with the value that
  \<^verbatim>\<open>attribute_value\<close> has after it. The value is a \<^verbatim>\<open>str\<close>, None, a code of the area
  table, or \<^verbatim>\<open>excel_col\<close> itself.
\<close>

definition resolve_attribute :: "builtins \<Rightarrow> excel_row \<Rightarrow> string \<Rightarrow> pyval \<Rightarrow> pyval \<Rightarrow> pyerr + pyval" where
  "resolve_attribute B row bcss_field excel_col notes =
     (if isna excel_col then Inr (VStr [])
      else if bcss_field = s_Chia_se_Wifi then
        (case lookup_col row excel_col of
           Some cell \<Rightarrow>
             Inr (VStr (if py_in ''support'' (str_lower B (py_str B cell)) then ''1'' else ''0''))
         | None \<Rightarrow> Inr (VStr ''0''))
      else if bcss_field = s_Pham_vi then
        (case lookup_col row excel_col of
           Some cell \<Rightarrow>
             (let area = py_str B cell in
              Inr (case get_national_area_mapping area of Some code \<Rightarrow> VInt code | None \<Rightarrow> VStr area))
         | None \<Rightarrow> Inr (VStr []))
      else if excel_col = VStr s_Khong_bat_buoc then Inr (VStr ''0'')
      else if excel_col = VStr ''SIM outbound'' then Inr (VStr ''SIM outbound'')
      else if excel_col = VStr s_Cai then Inr (VStr s_Cai)
      else if py_in s_Text_co_dinh (py_str B notes) then
        (case lookup_col row excel_col of
           Some cell \<Rightarrow>
             if \<not> isna cell \<and> str_strip B (py_str B cell) \<noteq> []
             then (case process_mapping_value B cell notes of
                     Inl e \<Rightarrow> Inl e
                   | Inr r \<Rightarrow> Inr (opt_value r))
             else Inr excel_col
         | None \<Rightarrow> Inr excel_col)
      else (case lookup_col row excel_col of
              Some cell \<Rightarrow> normalized_or_empty B cell notes
            | None \<Rightarrow> similar_column B row excel_col notes (map fst row)))"

subsection \<open>Post-processing by attribute id\<close>

text \<open>\<^verbatim>\<open>int(float(v))\<close>.\<close>

definition py_int_float :: "builtins \<Rightarrow> pyval \<Rightarrow> pyerr + int" where
  "py_int_float B v =
     (case py_float B v of
        Inl e \<Rightarrow> Inl e
      | Inr f \<Rightarrow> py_int_of_float f)"

text \<open>
  \<^verbatim>\<open>isinstance(v, (int, float)) or (isinstance(v, str) and v.isdigit())\<close>
\<close>

fun is_number_like :: "builtins \<Rightarrow> pyval \<Rightarrow> bool" where
  "is_number_like B (VInt i) = True"
| "is_number_like B (VFloat f) = True"
| "is_number_like B (VStr s) = str_isdigit B s"
| "is_number_like B VNone = False"

text \<open>Attribute 104 (speed after the high-speed quota): no handler around it.\<close>

definition post_throttle :: "builtins \<Rightarrow> pyval \<Rightarrow> pyerr + pyval" where
  "post_throttle B attribute_value =
     (if attribute_value = VStr s_infinity \<or> attribute_value = VStr ''-1'' then Inr VNone
      else if is_number_like B attribute_value then
        (case py_int_float B attribute_value of
           Inl e \<Rightarrow> Inl e
         | Inr n \<Rightarrow> Inr (VStr (str_of_int n @ '' Kbps'')))
      else (case attribute_value of
              VStr s \<Rightarrow>
                (let val = py_replace '' '' [] s in
                 if str_lower B val = ''1mbps'' then Inr (VStr ''1 Mbps'')
                 else if py_in ''mbps'' (str_lower B val)
                 then Inr (VStr (py_replace ''mbps'' '' Mbps'' (py_replace ''Mbps'' '' Mbps'' s)))
                 else if py_in ''kbps'' (str_lower B val)
                 then Inr (VStr (py_replace ''kbps'' '' Kbps'' (py_replace ''Kbps'' '' Kbps'' s)))
                 else Inr attribute_value)
            | _ \<Rightarrow> Inr attribute_value))"

text \<open>Attribute 106 (SIM type).\<close>

definition post_sim_type :: "builtins \<Rightarrow> pyval \<Rightarrow> pyval" where
  "post_sim_type B attribute_value =
     (let t = str_lower B (str_strip B (py_str B attribute_value)) in
      if t = ''esim'' then VStr ''2''
      else if t = ''sim card'' then VStr ''1''
      else attribute_value)"

text \<open>
  Attributes 107 and 109: the whole block is inside \<^verbatim>\<open>try ... except Exception\<close>, which
  turns every failure of \<^verbatim>\<open>int(float(v))\<close> into None.
\<close>

definition post_integer :: "builtins \<Rightarrow> pyval \<Rightarrow> pyval" where
  "post_integer B attribute_value =
     (let v = (case attribute_value of VStr s \<Rightarrow> VStr (str_strip B s) | _ \<Rightarrow> attribute_value) in
      if v = VStr [] \<or> v = VNone then VNone
      else (case py_int_float B v of
              Inl e \<Rightarrow> VNone
            | Inr n \<Rightarrow> VInt n))"

text \<open>Attribute 101 (high speed data).\<close>

definition post_high_speed :: "builtins \<Rightarrow> pyval \<Rightarrow> pyval" where
  "post_high_speed B attribute_value =
     (if str_strip B (py_str B attribute_value) = s_infinity then VNone else attribute_value)"

text \<open>The four \<^verbatim>\<open>if product_category_attribute_id ...\<close> blocks, in the order of the source.\<close>

definition post_process :: "builtins \<Rightarrow> int \<Rightarrow> pyval \<Rightarrow> pyerr + pyval" where
  "post_process B product_category_attribute_id attribute_value =
     (case (if product_category_attribute_id = 104 then post_throttle B attribute_value
            else Inr attribute_value) of
        Inl e \<Rightarrow> Inl e
      | Inr v1 \<Rightarrow>
          (let v2 = (if product_category_attribute_id = 106 then post_sim_type B v1 else v1);
               v3 = (if product_category_attribute_id = 107 \<or> product_category_attribute_id = 109
                     then post_integer B v2 else v2);
               v4 = (if product_category_attribute_id = 101 then post_high_speed B v3 else v3)
           in Inr v4))"

definition make_attribute :: "int \<Rightarrow> pyval \<Rightarrow> attribute_entry" where
  "make_attribute product_category_attribute_id attribute_value =
     \<lparr> attr_id = None, productCategoryAttributeId = product_category_attribute_id,
       productCategoryAttributeValueId = [], attributeValue = attribute_value \<rparr>"

text \<open>
  The loop over \<^verbatim>\<open>attribute_mapping.items()\<close>; the accumulator is \<^verbatim>\<open>attribute_list\<close>.
\<close>

fun build_attribute_list ::
  "builtins \<Rightarrow> mapping_data \<Rightarrow> excel_row \<Rightarrow> (string \<times> int) list \<Rightarrow> attribute_entry list
     \<Rightarrow> pyerr + attribute_entry list"
where
  "build_attribute_list B md row [] attribute_list = Inr attribute_list"
| "build_attribute_list B md row ((bcss_field, aid) # rest) attribute_list =
     (case md bcss_field of
        None \<Rightarrow> build_attribute_list B md row rest attribute_list
      | Some m \<Rightarrow>
          (case resolve_attribute B row bcss_field (excel_mapping m) (mapping_notes m) of
             Inl e \<Rightarrow> Inl e
           | Inr v \<Rightarrow>
               (case post_process B aid v of
                  Inl e \<Rightarrow> Inl e
                | Inr v' \<Rightarrow>
                    build_attribute_list B md row rest (attribute_list @ [make_attribute aid v']))))"

subsection \<open>Product code\<close>

record datetime =
  dt_year :: nat
  dt_month :: nat
  dt_day :: nat
  dt_hour :: nat
  dt_minute :: nat
  dt_second :: nat

definition zero_pad :: "nat \<Rightarrow> nat \<Rightarrow> string" where
  "zero_pad w n = replicate (w - length (str_of_nat n)) CHR ''0'' @ str_of_nat n"

text \<open>\<^verbatim>\<open>strftime('%Y%m%d%H%M%S')\<close>.\<close>

definition strftime_compact :: "datetime \<Rightarrow> string" where
  "strftime_compact t =
     zero_pad 4 (dt_year t) @ zero_pad 2 (dt_month t) @ zero_pad 2 (dt_day t)
     @ zero_pad 2 (dt_hour t) @ zero_pad 2 (dt_minute t) @ zero_pad 2 (dt_second t)"

text \<open>
  The loop \<^verbatim>\<open>for col in excel_row.index\<close> over the state
  \<open>(skuid_value, days_value)\<close>. The first test calls \<^verbatim>\<open>col.upper()\<close>, which raises
  AttributeError for a label that is not a \<^verbatim>\<open>str\<close>; past it the label is a \<^verbatim>\<open>str\<close>,
  \<open>name\<close>. The cell is read only when the name test holds (\<^verbatim>\<open>and\<close> is lazy).
\<close>

fun scan_code_columns ::
  "builtins \<Rightarrow> excel_row \<Rightarrow> pyval list \<Rightarrow> string \<times> string \<Rightarrow> pyerr + string \<times> string"
where
  "scan_code_columns B row [] st = Inr st"
| "scan_code_columns B row (col # cols) (skuid_value, days_value) =
     (case col of
        VStr name \<Rightarrow>
          (case (if py_in ''SKUID'' (str_upper B name)
                 then (case row_get B row col of
                         Inl e \<Rightarrow> Inl e
                       | Inr cell \<Rightarrow> Inr (if \<not> isna cell then py_str B cell else skuid_value))
                 else Inr skuid_value) of
             Inl e \<Rightarrow> Inl e
           | Inr skuid_value' \<Rightarrow>
               (case (if str_lower B (str_strip B name) = ''days''
                      then (case row_get B row col of
                              Inl e \<Rightarrow> Inl e
                            | Inr cell \<Rightarrow> Inr (if \<not> isna cell then py_str B cell else days_value))
                      else Inr days_value) of
                  Inl e \<Rightarrow> Inl e
                | Inr days_value' \<Rightarrow> scan_code_columns B row cols (skuid_value', days_value')))
      | _ \<Rightarrow> Inl (no_attribute col ''upper''))"

text \<open>Lines 439 to 452 of \<^verbatim>\<open>transform_excel_row_to_api\<close>; \<open>now\<close> is \<^verbatim>\<open>datetime.now()\<close>.\<close>

definition generate_product_code :: "builtins \<Rightarrow> datetime \<Rightarrow> excel_row \<Rightarrow> pyerr + string" where
  "generate_product_code B now row =
     (case scan_code_columns B row (map fst row) ([], []) of
        Inl e \<Rightarrow> Inl e
      | Inr (skuid_value, days_value) \<Rightarrow>
          Inr (if skuid_value \<noteq> [] \<and> days_value \<noteq> [] then skuid_value @ ''-'' @ days_value
               else if skuid_value \<noteq> [] then skuid_value
               else ''SIM-'' @ strftime_compact now))"

subsection \<open>The row transformation\<close>

definition transform_excel_row_to_api ::
  "builtins \<Rightarrow> datetime \<Rightarrow> mapping_data \<Rightarrow> excel_row \<Rightarrow> pyerr + payload"
where
  "transform_excel_row_to_api B now md excel_row =
     (case apply_field_mappings B md excel_row field_mappings get_default_api_payload of
        Inl e \<Rightarrow> Inl e
      | Inr p1 \<Rightarrow>
          (let p2 = p1\<lparr> productDescription := s_description_vi,
                       productDescriptionEn := s_description_en,
                       weight := None \<rparr>
           in case map_price B md excel_row p2 of
                Inl e \<Rightarrow> Inl e
              | Inr p3 \<Rightarrow>
                  (case map_vat B md excel_row p3 of
                     Inl e \<Rightarrow> Inl e
                   | Inr p4 \<Rightarrow>
                       (case build_attribute_list B md excel_row get_attribute_mapping [] of
                          Inl e \<Rightarrow> Inl e
                        | Inr attribute_list \<Rightarrow>
                            (case generate_product_code B now excel_row of
                               Inl e \<Rightarrow> Inl e
                             | Inr code \<Rightarrow>
                                 Inr (p4\<lparr> attributeValueList := attribute_list,
                                          productCode := code \<rparr>))))))"

section \<open>The API client\<close>

text \<open>\<^verbatim>\<open>APIConfig\<close> of \<^verbatim>\<open>excel_api_tool.py\<close>.\<close>

record api_config =
  api_url :: string
  api_method :: string
  api_headers :: "(string \<times> string) list"
  api_auth :: "(string \<times> string) option"

text \<open>A call of \<^verbatim>\<open>requests.post\<close> or \<^verbatim>\<open>requests.put\<close>.\<close>

record http_request =
  req_verb :: string
  req_url :: string
  req_json :: payload
  req_headers :: "(string \<times> string) list"
  req_auth :: "(string \<times> string) option"

text \<open>
  What the code reads of a \<^verbatim>\<open>requests.Response\<close>: the status code, the raw content, the
  decoded text, and the outcome of \<^verbatim>\<open>response.json()\<close>, which may raise; and what
  \<^verbatim>\<open>raise_for_status\<close> puts into its message, the reason phrase and the URL.
\<close>

record http_response =
  status_code :: int
  resp_reason :: string
  resp_url :: string
  resp_content :: string
  resp_text :: string
  resp_json :: "pyerr + string"

datatype http_outcome = Raised pyerr | Responded http_response

text \<open>
  The network is outside the program: the outcome of the \<open>k\<close>-th request of a run is
  \<open>net k request\<close>, for an arbitrary \<open>net\<close>.
\<close>

type_synonym network = "nat \<Rightarrow> http_request \<Rightarrow> http_outcome"

text \<open>
  \<^verbatim>\<open>response.raise_for_status()\<close> of the requests library raises \<^verbatim>\<open>HTTPError\<close>, a
  \<^verbatim>\<open>RequestException\<close> that carries the response, for the status codes 400 to 599. Its
  message is \<^verbatim>\<open>"<code> Client Error: <reason> for url: <url>"\<close> for the codes below 500
  and \<^verbatim>\<open>"<code> Server Error: <reason> for url: <url>"\<close> from 500 on.
\<close>

definition is_error_status :: "http_response \<Rightarrow> bool" where
  "is_error_status r = (400 \<le> status_code r \<and> status_code r < 600)"

definition http_error :: "http_response \<Rightarrow> pyerr" where
  "http_error r =
     RequestException
       (str_of_int (status_code r)
        @ (if status_code r < 500 then '' Client Error: '' else '' Server Error: '')
        @ resp_reason r @ '' for url: '' @ resp_url r)
       (Some (resp_text r))"

definition make_request :: "string \<Rightarrow> api_config \<Rightarrow> payload \<Rightarrow> http_request" where
  "make_request verb cfg data =
     \<lparr> req_verb = verb, req_url = api_url cfg, req_json = data,
       req_headers = api_headers cfg, req_auth = api_auth cfg \<rparr>"

text \<open>
  The request itself followed by \<^verbatim>\<open>raise_for_status\<close>; the second component is the list
  of requests issued.
\<close>

definition issue_request ::
  "(http_request \<Rightarrow> http_outcome) \<Rightarrow> http_request \<Rightarrow> (pyerr + http_response) \<times> http_request list"
where
  "issue_request net1 rq =
     (case net1 rq of
        Raised e \<Rightarrow> (Inl e, [rq])
      | Responded r \<Rightarrow> (if is_error_status r then Inl (http_error r) else Inr r, [rq]))"

text \<open>
  \<^verbatim>\<open>ExcelAPITool.send_to_api\<close>. The handler \<^verbatim>\<open>except RequestException\<close> logs and raises
  again, so it does not change the outcome; the ValueError of the last branch is not a
  \<^verbatim>\<open>RequestException\<close> and passes it by.
\<close>

definition send_to_api ::
  "builtins \<Rightarrow> (http_request \<Rightarrow> http_outcome) \<Rightarrow> api_config \<Rightarrow> payload
     \<Rightarrow> (pyerr + http_response) \<times> http_request list"
where
  "send_to_api B net1 cfg data =
     (if str_upper B (api_method cfg) = ''POST'' then issue_request net1 (make_request ''POST'' cfg data)
      else if str_upper B (api_method cfg) = ''PUT'' then issue_request net1 (make_request ''PUT'' cfg data)
      else (Inl (ValueError (''Unsupported HTTP method: '' @ api_method cfg)), []))"

section \<open>The batch runner\<close>

text \<open>
  One dictionary of the result list. A key that a result does not have is None;
  \<open>res_response_data\<close> and \<open>res_response_body\<close> are keys whose value may itself be None.
\<close>

record process_result =
  res_row :: int
  res_product_code :: "string option"
  res_status :: string
  res_payload :: "payload option"
  res_response_status :: "int option"
  res_response_data :: "string option option"
  res_response_body :: "string option option"
  res_error :: "string option"

definition dry_run_result :: "int \<Rightarrow> payload \<Rightarrow> process_result" where
  "dry_run_result n api_payload =
     \<lparr> res_row = n, res_product_code = Some (productCode api_payload), res_status = ''dry_run'',
       res_payload = Some api_payload, res_response_status = None, res_response_data = None,
       res_response_body = None, res_error = None \<rparr>"

definition sent_result :: "int \<Rightarrow> payload \<Rightarrow> http_response \<Rightarrow> string option \<Rightarrow> process_result" where
  "sent_result n api_payload response response_data =
     \<lparr> res_row = n, res_product_code = Some (productCode api_payload),
       res_status = (if \<not> is_error_status response then ''success'' else ''failed''),
       res_payload = None, res_response_status = Some (status_code response),
       res_response_data = Some response_data,
       res_response_body =
         Some (if resp_content response \<noteq> [] then Some (resp_text response) else None),
       res_error = None \<rparr>"

text \<open>The handler \<^verbatim>\<open>except requests.RequestException as e\<close> around the sending.\<close>

definition request_failed_result :: "int \<Rightarrow> payload \<Rightarrow> pyerr \<Rightarrow> process_result" where
  "request_failed_result n api_payload e =
     \<lparr> res_row = n, res_product_code = Some (productCode api_payload), res_status = ''failed'',
       res_payload = None, res_response_status = None, res_response_data = None,
       res_response_body = Some (case e of RequestException m b \<Rightarrow> b | _ \<Rightarrow> None),
       res_error = Some (exc_message e) \<rparr>"

text \<open>The handler \<^verbatim>\<open>except Exception as e\<close> around the whole row.\<close>

definition row_failed_result :: "int \<Rightarrow> pyerr \<Rightarrow> process_result" where
  "row_failed_result n e =
     \<lparr> res_row = n, res_product_code = None, res_status = ''failed'', res_payload = None,
       res_response_status = None, res_response_data = None, res_response_body = None,
       res_error = Some (exc_message e) \<rparr>"

text \<open>
  What the two handlers make of an exception raised while sending or while building the
  result of a sent row.
\<close>

definition handle_send_error :: "int \<Rightarrow> payload \<Rightarrow> pyerr \<Rightarrow> process_result" where
  "handle_send_error n api_payload e =
     (if is_request_exception e then request_failed_result n api_payload e
      else row_failed_result n e)"

text \<open>\<^verbatim>\<open>response.json() if response.content else None\<close>\<close>

definition response_data_of :: "http_response \<Rightarrow> pyerr + string option" where
  "response_data_of response =
     (if resp_content response \<noteq> []
      then (case resp_json response of Inl e \<Rightarrow> Inl e | Inr d \<Rightarrow> Inr (Some d))
      else Inr None)"

text \<open>
  The body of the loop for a row that is not skipped. The state is the result list and
  the requests issued so far; \<open>clock index\<close> is the time \<^verbatim>\<open>datetime.now()\<close> gives
  while the row \<open>index\<close> is transformed. The log lines are left out: \<^verbatim>\<open>json.dumps\<close> of
  the dry run accepts every payload of the model, whose values are None, \<^verbatim>\<open>str\<close>,
  \<^verbatim>\<open>int\<close> and \<^verbatim>\<open>float\<close>.
\<close>

definition process_row ::
  "builtins \<Rightarrow> network \<Rightarrow> (nat \<Rightarrow> datetime) \<Rightarrow> mapping_data \<Rightarrow> api_config \<Rightarrow> bool \<Rightarrow> nat
     \<Rightarrow> excel_row \<Rightarrow> process_result list \<times> http_request list
     \<Rightarrow> process_result list \<times> http_request list"
where
  "process_row B net clock md cfg dry_run index r st =
     (case st of (results, calls) \<Rightarrow>
        (case transform_excel_row_to_api B (clock index) md r of
           Inl e \<Rightarrow> (results @ [row_failed_result (int index + 1) e], calls)
         | Inr api_payload \<Rightarrow>
             if dry_run then (results @ [dry_run_result (int index + 1) api_payload], calls)
             else (case send_to_api B (net (length calls)) cfg api_payload of
                     (Inl e, sent) \<Rightarrow>
                       (results @ [handle_send_error (int index + 1) api_payload e], calls @ sent)
                   | (Inr response, sent) \<Rightarrow>
                       (case response_data_of response of
                          Inl e \<Rightarrow>
                            (results @ [handle_send_error (int index + 1) api_payload e],
                             calls @ sent)
                        | Inr response_data \<Rightarrow>
                            (results @ [sent_result (int index + 1) api_payload response response_data],
                             calls @ sent)))))"

text \<open>The loop \<^verbatim>\<open>for index, row in product_data.iterrows()\<close>, \<open>index\<close> counting from 0.\<close>

fun process_rows ::
  "builtins \<Rightarrow> network \<Rightarrow> (nat \<Rightarrow> datetime) \<Rightarrow> mapping_data \<Rightarrow> api_config \<Rightarrow> bool \<Rightarrow> int
     \<Rightarrow> nat \<Rightarrow> excel_row list \<Rightarrow> process_result list \<times> http_request list
     \<Rightarrow> process_result list \<times> http_request list"
where
  "process_rows B net clock md cfg dry_run start_row index [] st = st"
| "process_rows B net clock md cfg dry_run start_row index (r # rest) st =
     (if int index + 1 < start_row
      then process_rows B net clock md cfg dry_run start_row (Suc index) rest st
      else process_rows B net clock md cfg dry_run start_row (Suc index) rest
             (process_row B net clock md cfg dry_run index r st))"

text \<open>
  \<^verbatim>\<open>BCSSAPIIntegration.process_excel_file\<close> on the rows of the loaded sheet. The first
  component is the returned list, the second the requests sent to the network.
\<close>

definition process_excel_file ::
  "builtins \<Rightarrow> network \<Rightarrow> (nat \<Rightarrow> datetime) \<Rightarrow> mapping_data \<Rightarrow> api_config \<Rightarrow> excel_row list
     \<Rightarrow> bool \<Rightarrow> int \<Rightarrow> process_result list \<times> http_request list"
where
  "process_excel_file B net clock md cfg product_data dry_run start_row =
     process_rows B net clock md cfg dry_run start_row 0 product_data ([], [])"

section \<open>An interpretation of the builtins on ASCII text\<close>

text \<open>
  For evaluating the model on concrete rows: the string methods as they act on ASCII
  text, and \<^verbatim>\<open>float\<close> on unsigned decimal integer literals (exact below \<open>2^53\<close>). A
  byte above 127 is left alone by the case conversions, is not a digit and is not white
  space. \<open>str_of_float\<close> renders NaN, the infinities and the integral floats; the lemmas
  below evaluate it nowhere else. \<open>float_of_big_int\<close> is asked only for integers beyond
  \<open>2^53\<close>, which the examples do not contain.
\<close>

definition ascii_upper_letters :: string where
  "ascii_upper_letters = ''ABCDEFGHIJKLMNOPQRSTUVWXYZ''"

definition ascii_lower_letters :: string where
  "ascii_lower_letters = ''abcdefghijklmnopqrstuvwxyz''"

definition ascii_lower_char :: "char \<Rightarrow> char" where
  "ascii_lower_char c =
     (case map_of (zip ascii_upper_letters ascii_lower_letters) c of None \<Rightarrow> c | Some d \<Rightarrow> d)"

definition ascii_upper_char :: "char \<Rightarrow> char" where
  "ascii_upper_char c =
     (case map_of (zip ascii_lower_letters ascii_upper_letters) c of None \<Rightarrow> c | Some d \<Rightarrow> d)"

definition ascii_space :: "char \<Rightarrow> bool" where
  "ascii_space c =
     (c \<in> set [CHR 0x20, CHR 0x09, CHR 0x0A, CHR 0x0B, CHR 0x0C, CHR 0x0D,
               CHR 0x1C, CHR 0x1D, CHR 0x1E, CHR 0x1F])"

definition ascii_strip :: "string \<Rightarrow> string" where
  "ascii_strip s = rev (dropWhile ascii_space (rev (dropWhile ascii_space s)))"

definition ascii_digit :: "char \<Rightarrow> bool" where
  "ascii_digit c = (c \<in> set ''0123456789'')"

definition ascii_isdigit :: "string \<Rightarrow> bool" where
  "ascii_isdigit s = (s \<noteq> [] \<and> list_all ascii_digit s)"

definition digit_value :: "char \<Rightarrow> nat" where
  "digit_value c = (case map_of (zip ''0123456789'' [0, 1, 2, 3, 4, 5, 6, 7, 8, 9]) c of
                      None \<Rightarrow> 0 | Some d \<Rightarrow> d)"

definition nat_of_digits :: "string \<Rightarrow> nat" where
  "nat_of_digits s = foldl (\<lambda>a c. 10 * a + digit_value c) 0 s"

definition ascii_float_of_str :: "string \<Rightarrow> pyfloat option" where
  "ascii_float_of_str s =
     (let t = ascii_strip s in
      if ascii_isdigit t then Some (FFin (of_nat (nat_of_digits t))) else None)"

definition ascii_str_of_float :: "pyfloat \<Rightarrow> string" where
  "ascii_str_of_float f =
     (case f of
        FNaN \<Rightarrow> ''nan''
      | FInf b \<Rightarrow> (if b then ''inf'' else ''-inf'')
      | FFin r \<Rightarrow> (if r = of_int \<lfloor>r\<rfloor> then str_of_int \<lfloor>r\<rfloor> @ ''.0'' else []))"

definition ascii_builtins :: builtins where
  "ascii_builtins =
     \<lparr> str_lower = map ascii_lower_char, str_upper = map ascii_upper_char,
       str_strip = ascii_strip, str_isdigit = ascii_isdigit,
       float_of_str = ascii_float_of_str, float_of_big_int = (\<lambda>i. None),
       str_of_float = ascii_str_of_float \<rparr>"

section \<open>Notions used in the statements\<close>

text \<open>A computation that returns, as opposed to one that raises.\<close>

definition returns :: "'e + 'a \<Rightarrow> bool" where
  "returns x = (case x of Inl e \<Rightarrow> False | Inr v \<Rightarrow> True)"

text \<open>
  The text of the last cell that is not null among the columns whose label is a \<^verbatim>\<open>str\<close>
  that satisfies \<open>P\<close>; the empty string when there is none.
\<close>

definition column_value :: "builtins \<Rightarrow> excel_row \<Rightarrow> (string \<Rightarrow> bool) \<Rightarrow> string" where
  "column_value B row P =
     (let hits = filter (\<lambda>cv. (case fst cv of VStr name \<Rightarrow> P name | _ \<Rightarrow> False)
                              \<and> \<not> isna (snd cv)) row
      in if hits = [] then [] else py_str B (snd (last hits)))"

text \<open>
  The times \<^verbatim>\<open>datetime.now()\<close> can give for which \<^verbatim>\<open>%Y\<close> has four digits on every
  platform.
\<close>

definition valid_datetime :: "datetime \<Rightarrow> bool" where
  "valid_datetime t =
     (1000 \<le> dt_year t \<and> dt_year t \<le> 9999 \<and> 1 \<le> dt_month t \<and> dt_month t \<le> 12
      \<and> 1 \<le> dt_day t \<and> dt_day t \<le> 31 \<and> dt_hour t \<le> 23 \<and> dt_minute t \<le> 59
      \<and> dt_second t \<le> 59)"

text \<open>
  The result that the batch runner records for the row \<open>index\<close> in a dry run.
\<close>

definition dry_run_outcome ::
  "builtins \<Rightarrow> (nat \<Rightarrow> datetime) \<Rightarrow> mapping_data \<Rightarrow> nat \<Rightarrow> excel_row \<Rightarrow> process_result"
where
  "dry_run_outcome B clock md index r =
     (case transform_excel_row_to_api B (clock index) md r of
        Inl e \<Rightarrow> row_failed_result (int index + 1) e
      | Inr api_payload \<Rightarrow> dry_run_result (int index + 1) api_payload)"

text \<open>
  The loop body run over a list of numbered rows, none of which is skipped.
\<close>

definition run_rows ::
  "builtins \<Rightarrow> network \<Rightarrow> (nat \<Rightarrow> datetime) \<Rightarrow> mapping_data \<Rightarrow> api_config \<Rightarrow> bool
     \<Rightarrow> (nat \<times> excel_row) list \<Rightarrow> process_result list \<times> http_request list
     \<Rightarrow> process_result list \<times> http_request list"
where
  "run_rows B net clock md cfg dry_run numbered st =
     foldl (\<lambda>st kr. process_row B net clock md cfg dry_run (fst kr) (snd kr) st) st numbered"

section \<open>Example data\<close>

definition example_now :: datetime where
  "example_now =
     \<lparr> dt_year = 2025, dt_month = 6, dt_day = 1, dt_hour = 9, dt_minute = 5, dt_second = 7 \<rparr>"

text \<open>
  A mapping sheet in the shape of the one \<^verbatim>\<open>create_mapping_config.py\<close> writes, with
  ASCII column names; the package type is not configured.
\<close>

definition example_mapping :: mapping_data where
  "example_mapping = map_of
     [(s_Ten_san_pham, \<lparr> excel_mapping = VStr ''Product Name Short'', mapping_notes = VStr ''column'' \<rparr>),
      (s_Gia_hang_hoa, \<lparr> excel_mapping = VStr ''Price'', mapping_notes = VStr ''column'' \<rparr>),
      (''VAT'', \<lparr> excel_mapping = VInt 10, mapping_notes = VStr ''fixed'' \<rparr>),
      (s_So_ngay, \<lparr> excel_mapping = VStr ''Days'', mapping_notes = VStr ''column'' \<rparr>),
      (s_Dung_luong, \<lparr> excel_mapping = VStr ''High Speed Data'', mapping_notes = VStr ''column'' \<rparr>),
      (s_eKYC, \<lparr> excel_mapping = VStr s_Khong_bat_buoc, mapping_notes = VStr ''fixed'' \<rparr>),
      (s_Het_toc_do, \<lparr> excel_mapping = VStr ''Throttled Speed (kbps)'', mapping_notes = VStr ''column'' \<rparr>),
      (s_Chia_se_Wifi, \<lparr> excel_mapping = VStr ''Hotspot sharing'', mapping_notes = VStr ''column'' \<rparr>),
      (s_Loai_SIM, \<lparr> excel_mapping = VStr ''SIM type'', mapping_notes = VStr ''column'' \<rparr>),
      (s_Pham_vi, \<lparr> excel_mapping = VStr ''National Area'', mapping_notes = VStr ''column'' \<rparr>),
      (''SKUID'', \<lparr> excel_mapping = VStr ''SKUID'', mapping_notes = VStr ''column'' \<rparr>),
      (s_Nha_cung_cap, \<lparr> excel_mapping = VStr ''Telco'', mapping_notes = VStr ''column'' \<rparr>)]"

definition example_row :: excel_row where
  "example_row =
     [(VStr ''SKUID'', VStr ''TEST001''), (VStr ''Days'', VStr ''30''),
      (VStr ''Product Name Short'', VStr ''Test SIM Package''),
      (VStr ''High Speed Data'', VStr ''5GB''), (VStr ''Throttled Speed (kbps)'', VStr ''128''),
      (VStr ''Hotspot sharing'', VStr ''Support''), (VStr ''SIM type'', VStr ''eSIM''),
      (VStr ''National Area'', VStr ''Vietnam''), (VStr ''Telco'', VStr ''Viettel''),
      (VStr ''Price'', VStr ''50000'')]"

text \<open>A row whose SKUID cell is the empty string, as in \<^verbatim>\<open>test_transform_with_missing_data\<close>.\<close>

definition empty_skuid_row :: excel_row where
  "empty_skuid_row = [(VStr ''SKUID'', VStr []), (VStr ''Days'', VStr ''7'')]"

text \<open>A sheet whose second header cell is the number 2024.\<close>

definition numeric_header_row :: excel_row where
  "numeric_header_row = [(VStr ''SKUID'', VStr ''TEST001''), (VInt 2024, VStr ''30'')]"

text \<open>
  A mapping sheet that configures only the coverage area, and a row whose area cell is a
  number written as text, with spaces around it.
\<close>

definition area_mapping :: mapping_data where
  "area_mapping = map_of
     [(s_Pham_vi, \<lparr> excel_mapping = VStr ''National Area'', mapping_notes = VStr ''column'' \<rparr>)]"

definition numeric_area_row :: excel_row where
  "numeric_area_row = [(VStr ''SKUID'', VStr ''TEST002''), (VStr ''National Area'', VStr '' 35 '')]"

text \<open>
  A mapping sheet whose note cell for the package type is empty, which pandas reads as
  NaN, and a row with that column.
\<close>

definition nan_note_mapping :: mapping_data where
  "nan_note_mapping = map_of
     [(s_Loai_goi, \<lparr> excel_mapping = VStr ''Package type'', mapping_notes = VFloat FNaN \<rparr>)]"

definition package_row :: excel_row where
  "package_row = [(VStr ''Package type'', VStr ''Prepaid'')]"

definition example_clock :: "nat \<Rightarrow> datetime" where
  "example_clock index = example_now"

definition example_config :: api_config where
  "example_config =
     \<lparr> api_url = ''https://test-api.com/data'', api_method = ''POST'',
       api_headers = [(''Content-Type'', ''application/json'')], api_auth = None \<rparr>"

definition delete_config :: api_config where
  "delete_config = example_config\<lparr> api_method := ''DELETE'' \<rparr>"

text \<open>A network that refuses every connection.\<close>

definition unreachable_net :: network where
  "unreachable_net k rq = Raised (RequestException ''connection refused'' None)"

section \<open>Evaluation and structure lemmas\<close>

lemmas model_defs =
  transform_excel_row_to_api_def field_mappings_def get_default_api_payload_def
  get_attribute_mapping_def get_national_area_mapping_def national_area_table_def
  lookup_col_def row_get_def process_mapping_value_def set_first_price_def assign_price_def
  map_price_def map_vat_def opt_value_def normalized_or_empty_def resolve_attribute_def
  py_int_float_def post_throttle_def post_sim_type_def post_integer_def post_high_speed_def
  post_process_def make_attribute_def zero_pad_def strftime_compact_def
  generate_product_code_def str_of_int_def digit_char_def quote_def no_attribute_def
  s_Trong_def s_co_def s_support_co_def s_khong_bat_buoc_def s_Khong_bat_buoc_def s_Cai_def
  s_Text_co_dinh_def s_infinity_def s_Ma_san_pham_def s_Ten_san_pham_def s_Gia_hang_hoa_def
  s_Dung_luong_def s_Loai_goi_def s_eKYC_def s_Het_toc_do_def s_Chia_se_Wifi_def
  s_Loai_SIM_def s_Pham_vi_def s_So_ngay_def s_Nha_cung_cap_def s_description_vi_def
  s_description_en_def ascii_builtins_def ascii_upper_letters_def ascii_lower_letters_def
  ascii_lower_char_def ascii_upper_char_def ascii_space_def ascii_strip_def ascii_digit_def
  ascii_isdigit_def digit_value_def nat_of_digits_def ascii_float_of_str_def
  ascii_str_of_float_def returns_def example_now_def example_mapping_def example_row_def
  empty_skuid_row_def nan_note_mapping_def package_row_def example_clock_def
  example_config_def delete_config_def unreachable_net_def numeric_header_row_def
  area_mapping_def numeric_area_row_def py_repr_def str_of_nat.simps Let_def

lemma returns_Inr: "returns x \<Longrightarrow> \<exists>v. x = Inr v"
  by (cases x) (simp_all add: returns_def)

lemma example_transform_returns:
  "returns (transform_excel_row_to_api ascii_builtins example_now example_mapping example_row)"
  by (simp add: model_defs)

subsection \<open>Price and VAT entries\<close>

lemma set_first_price_shape:
  assumes "set_first_price v ds = Inr ds'"
  shows "length ds' = length ds \<and> map fromDate ds' = map fromDate ds
       \<and> map toDate ds' = map toDate ds"
  using assms by (auto simp: set_first_price_def split: list.splits)

lemma assign_price_shape:
  assumes "assign_price B fallback cell ds = Inr ds'"
  shows "length ds' = length ds \<and> map fromDate ds' = map fromDate ds
       \<and> map toDate ds' = map toDate ds"
  using assms set_first_price_shape
  by (auto simp: assign_price_def split: sum.splits if_splits)

lemma map_price_shape:
  assumes "map_price B md row p = Inr p'"
  shows "length (productPriceDTOS p') = length (productPriceDTOS p)
       \<and> map fromDate (productPriceDTOS p') = map fromDate (productPriceDTOS p)
       \<and> map toDate (productPriceDTOS p') = map toDate (productPriceDTOS p)
       \<and> productVatDTOS p' = productVatDTOS p"
  using assms assign_price_shape
  by (auto simp: map_price_def split: option.splits if_splits sum.splits)

lemma map_vat_shape:
  assumes "map_vat B md row p = Inr p'"
  shows "length (productVatDTOS p') = length (productVatDTOS p)
       \<and> map fromDate (productVatDTOS p') = map fromDate (productVatDTOS p)
       \<and> map toDate (productVatDTOS p') = map toDate (productVatDTOS p)
       \<and> productPriceDTOS p' = productPriceDTOS p"
  using assms assign_price_shape
  by (auto simp: map_vat_def split: option.splits if_splits sum.splits)

lemma set_api_field_dtos:
  "productPriceDTOS (set_api_field f v p) = productPriceDTOS p \<and>
   productVatDTOS (set_api_field f v p) = productVatDTOS p"
  by (cases f) simp_all

lemma apply_field_mappings_dtos:
  "apply_field_mappings B md row fs p = Inr p' \<Longrightarrow>
     productPriceDTOS p' = productPriceDTOS p \<and> productVatDTOS p' = productVatDTOS p"
proof (induction fs arbitrary: p)
  case Nil
  then show ?case by simp
next
  case (Cons a fs)
  obtain bf af where a: "a = (bf, af)" by (cases a)
  from Cons.prems show ?case
    unfolding a
    by (auto simp: set_api_field_dtos split: option.splits if_splits sum.splits dest!: Cons.IH)
qed

text \<open>The steps behind a payload that \<open>transform_excel_row_to_api\<close> returns.\<close>

lemma transform_Inr_cases:
  assumes "transform_excel_row_to_api B now md row = Inr p"
  obtains p1 p3 p4 attribute_list code where
    "apply_field_mappings B md row field_mappings get_default_api_payload = Inr p1"
    "map_price B md row (p1\<lparr> productDescription := s_description_vi,
        productDescriptionEn := s_description_en, weight := None \<rparr>) = Inr p3"
    "map_vat B md row p3 = Inr p4"
    "build_attribute_list B md row get_attribute_mapping [] = Inr attribute_list"
    "generate_product_code B now row = Inr code"
    "p = p4\<lparr> attributeValueList := attribute_list, productCode := code \<rparr>"
  using assms unfolding transform_excel_row_to_api_def
  by (auto simp: Let_def split: sum.splits)

subsection \<open>The attribute list\<close>

lemma build_attribute_list_ids:
  "build_attribute_list B md row fs acc = Inr es \<Longrightarrow>
     map productCategoryAttributeId es
       = map productCategoryAttributeId acc @ map snd (filter (\<lambda>fa. md (fst fa) \<noteq> None) fs)"
proof (induction fs arbitrary: acc)
  case Nil
  then show ?case by simp
next
  case (Cons a fs)
  obtain f aid where a: "a = (f, aid)" by (cases a)
  show ?case
  proof (cases "md f")
    case None
    with Cons.prems a have "build_attribute_list B md row fs acc = Inr es" by simp
    from Cons.IH [OF this] None a show ?thesis by simp
  next
    case (Some m)
    with Cons.prems a obtain v v' where
      "build_attribute_list B md row fs (acc @ [make_attribute aid v']) = Inr es"
      by (auto split: sum.splits)
    from Cons.IH [OF this] Some a show ?thesis by (simp add: make_attribute_def)
  qed
qed

lemma build_attribute_list_entries:
  "build_attribute_list B md row fs acc = Inr es \<Longrightarrow> e \<in> set es \<Longrightarrow>
     e \<in> set acc \<or>
     (\<exists>f aid m v v'. (f, aid) \<in> set fs \<and> md f = Some m
        \<and> resolve_attribute B row f (excel_mapping m) (mapping_notes m) = Inr v
        \<and> post_process B aid v = Inr v' \<and> e = make_attribute aid v')"
proof (induction fs arbitrary: acc)
  case Nil
  then show ?case by simp
next
  case (Cons a fs)
  obtain f aid where a: "a = (f, aid)" by (cases a)
  show ?case
  proof (cases "md f")
    case None
    with Cons.prems a have "build_attribute_list B md row fs acc = Inr es" by simp
    from Cons.IH [OF this Cons.prems(2)] show ?thesis by (simp add: a) blast
  next
    case (Some m)
    with Cons.prems a obtain v v' where
      r: "resolve_attribute B row f (excel_mapping m) (mapping_notes m) = Inr v" and
      q: "post_process B aid v = Inr v'" and
      b: "build_attribute_list B md row fs (acc @ [make_attribute aid v']) = Inr es"
      by (auto split: sum.splits)
    from Cons.IH [OF b Cons.prems(2)] r q Some show ?thesis by (simp add: a) blast
  qed
qed

lemma attribute_ids_declared:
  "map snd get_attribute_mapping = [101, 102, 103, 104, 105, 106, 107, 108, 109, 110]"
  by (simp add: get_attribute_mapping_def)

lemma subseq_map_filter: "subseq (map f (filter P xs)) (map f xs)"
  by (induction xs) auto

lemma transform_attribute_ids:
  assumes "transform_excel_row_to_api B now md row = Inr p"
  shows "map productCategoryAttributeId (attributeValueList p)
           = map snd (filter (\<lambda>fa. md (fst fa) \<noteq> None) get_attribute_mapping)"
proof -
  from assms obtain p4 attribute_list code where
    b: "build_attribute_list B md row get_attribute_mapping [] = Inr attribute_list" and
    p: "p = p4\<lparr> attributeValueList := attribute_list, productCode := code \<rparr>"
    by (rule transform_Inr_cases)
  show ?thesis using build_attribute_list_ids [OF b] unfolding p by simp
qed

lemma transform_attribute_entries:
  assumes "transform_excel_row_to_api B now md row = Inr p"
    and "e \<in> set (attributeValueList p)"
  shows "\<exists>f aid m v v'. (f, aid) \<in> set get_attribute_mapping \<and> md f = Some m
        \<and> resolve_attribute B row f (excel_mapping m) (mapping_notes m) = Inr v
        \<and> post_process B aid v = Inr v' \<and> e = make_attribute aid v'"
proof -
  from assms(1) obtain p4 attribute_list code where
    b: "build_attribute_list B md row get_attribute_mapping [] = Inr attribute_list" and
    p: "p = p4\<lparr> attributeValueList := attribute_list, productCode := code \<rparr>"
    by (rule transform_Inr_cases)
  from assms(2) have "e \<in> set attribute_list" unfolding p by simp
  from build_attribute_list_entries [OF b this] show ?thesis by simp
qed

lemma example_configured_ids:
  "map snd (filter (\<lambda>fa. example_mapping (fst fa) \<noteq> None) get_attribute_mapping)
     = [101, 103, 104, 105, 106, 107, 108, 109, 110]"
  by (simp add: model_defs)

subsection \<open>The coverage area\<close>

lemma post_integer_type: "post_integer B v = VNone \<or> (\<exists>n. post_integer B v = VInt n)"
  by (simp add: post_integer_def Let_def split: sum.splits)

lemma post_process_107: "post_process B 107 v = Inr (post_integer B v)"
  by (simp add: post_process_def)

lemma coverage_field_unique: "(f, 107) \<in> set get_attribute_mapping \<Longrightarrow> f = s_Pham_vi"
  by (simp add: get_attribute_mapping_def)

lemma Pham_vi_not_Wifi: "s_Pham_vi \<noteq> s_Chia_se_Wifi"
  by (simp add: s_Pham_vi_def s_Chia_se_Wifi_def)

lemma resolve_coverage_area:
  "resolve_attribute B row s_Pham_vi excel_col notes =
     Inr (if isna excel_col then VStr []
          else (case lookup_col row excel_col of
                  Some cell \<Rightarrow>
                    (case get_national_area_mapping (py_str B cell) of
                       Some code \<Rightarrow> VInt code
                     | None \<Rightarrow> VStr (py_str B cell))
                | None \<Rightarrow> VStr []))"
  by (simp add: resolve_attribute_def Pham_vi_not_Wifi Let_def split: option.splits)

text \<open>The codes of the table of \<^verbatim>\<open>_get_national_area_mapping\<close> go from 21 to 161.\<close>

lemma area_codes_small: "list_all (\<lambda>kv. 21 \<le> snd kv \<and> snd kv \<le> 161) national_area_table"
  by (simp add: national_area_table_def)

lemma area_code_bound:
  assumes "get_national_area_mapping a = Some code"
  shows "\<bar>code\<bar> \<le> 2 ^ 53"
proof -
  from assms have "(a, code) \<in> set national_area_table"
    unfolding get_national_area_mapping_def by (rule map_of_SomeD)
  with area_codes_small have "21 \<le> code \<and> code \<le> 161"
    by (auto simp: list_all_iff)
  then show ?thesis by simp
qed

lemma post_integer_int: "\<bar>i\<bar> \<le> 2 ^ 53 \<Longrightarrow> post_integer B (VInt i) = VInt i"
  by (simp add: post_integer_def py_int_float_def)

lemma post_integer_unparsable:
  "float_of_str B (str_strip B s) = None \<Longrightarrow> post_integer B (VStr s) = VNone"
  by (simp add: post_integer_def py_int_float_def Let_def)

text \<open>The coercion of a text: strip, null when empty, else \<^verbatim>\<open>int(float(...))\<close> or null.\<close>

lemma post_integer_text:
  "post_integer B (VStr s) =
     (if str_strip B s = [] then VNone
      else (case float_of_str B (str_strip B s) of
              None \<Rightarrow> VNone
            | Some FNaN \<Rightarrow> VNone
            | Some (FInf b) \<Rightarrow> VNone
            | Some (FFin r) \<Rightarrow> VInt (if 0 \<le> r then \<lfloor>r\<rfloor> else \<lceil>r\<rceil>)))"
  by (simp add: post_integer_def py_int_float_def Let_def split: option.splits pyfloat.splits)

lemma example_area_transform_returns:
  "returns (transform_excel_row_to_api ascii_builtins example_now area_mapping numeric_area_row)"
  by (simp add: model_defs)

lemma example_area_configured_ids:
  "map snd (filter (\<lambda>fa. area_mapping (fst fa) \<noteq> None) get_attribute_mapping) = [107]"
  by (simp add: model_defs)

section \<open>The value normalizer\<close>

text \<open>
  \<open>process_mapping_value\<close> returns whenever the note is a \<^verbatim>\<open>str\<close> or is falsy (None, the
  empty string, zero), and whenever the cell is not a \<^verbatim>\<open>str\<close>.
\<close>

lemma process_mapping_value_str_note:
  "returns (process_mapping_value B mapping_value (VStr n))"
  by (cases mapping_value) (simp_all add: process_mapping_value_def returns_def Let_def)

lemma process_mapping_value_falsy_note:
  "\<not> truthy notes \<Longrightarrow> returns (process_mapping_value B mapping_value notes)"
  by (cases mapping_value) (simp_all add: process_mapping_value_def returns_def Let_def)

text \<open>
  Claim C1: for every cell value and every note value \<^verbatim>\<open>_process_mapping_value\<close> returns
  without raising. It does not: the note of a mapping row whose note cell is empty is the
  float NaN, which is truthy, so for the cell \<^verbatim>\<open>"Prepaid"\<close> the test
  \<^verbatim>\<open>notes and "support = ..." in notes.lower()\<close> evaluates \<^verbatim>\<open>notes.lower()\<close> and raises
  AttributeError.
\<close>

theorem process_mapping_value_nan_note:
  "process_mapping_value ascii_builtins (VStr ''Prepaid'') (VFloat FNaN)
     = Inl (AttributeError (quote @ ''float'' @ quote @ '' object has no attribute ''
              @ quote @ ''lower'' @ quote))"
  by (simp add: model_defs)

section \<open>The payload\<close>

text \<open>
  Claim C2: every payload returned by \<^verbatim>\<open>transform_excel_row_to_api\<close> has exactly one
  entry in \<^verbatim>\<open>productPriceDTOS\<close> and exactly one in \<^verbatim>\<open>productVatDTOS\<close>, and both entries
  have \<^verbatim>\<open>fromDate\<close> and \<^verbatim>\<open>toDate\<close> null.
\<close>

theorem payload_price_vat_entries:
  assumes "transform_excel_row_to_api B now md row = Inr p"
  shows "length (productPriceDTOS p) = 1 \<and> length (productVatDTOS p) = 1
       \<and> map fromDate (productPriceDTOS p) = [None] \<and> map toDate (productPriceDTOS p) = [None]
       \<and> map fromDate (productVatDTOS p) = [None] \<and> map toDate (productVatDTOS p) = [None]"
proof -
  from assms obtain p1 p3 p4 attribute_list code where
    s1: "apply_field_mappings B md row field_mappings get_default_api_payload = Inr p1" and
    s2: "map_price B md row (p1\<lparr> productDescription := s_description_vi,
           productDescriptionEn := s_description_en, weight := None \<rparr>) = Inr p3" and
    s3: "map_vat B md row p3 = Inr p4" and
    p: "p = p4\<lparr> attributeValueList := attribute_list, productCode := code \<rparr>"
    by (rule transform_Inr_cases)
  have d1: "productPriceDTOS p1 = productPriceDTOS get_default_api_payload"
    "productVatDTOS p1 = productVatDTOS get_default_api_payload"
    using apply_field_mappings_dtos [OF s1] by simp_all
  note m2 = map_price_shape [OF s2]
  note m3 = map_vat_shape [OF s3]
  show ?thesis
    using d1 m2 m3 unfolding p by (simp add: get_default_api_payload_def)
qed

theorem payload_price_vat_entries_witness:
  "\<exists>p. transform_excel_row_to_api ascii_builtins example_now example_mapping example_row = Inr p
     \<and> length (productPriceDTOS p) = 1 \<and> length (productVatDTOS p) = 1
     \<and> map fromDate (productPriceDTOS p) = [None] \<and> map toDate (productPriceDTOS p) = [None]
     \<and> map fromDate (productVatDTOS p) = [None] \<and> map toDate (productVatDTOS p) = [None]"
proof -
  from example_transform_returns obtain p where
    p: "transform_excel_row_to_api ascii_builtins example_now example_mapping example_row = Inr p"
    by (auto dest: returns_Inr)
  note t = payload_price_vat_entries [OF p]
  from p t show ?thesis
    by - (rule exI [of _ p], rule conjI, assumption, assumption)
qed

text \<open>
  Claim C10: the \<^verbatim>\<open>attributeValueList\<close> of a returned payload has exactly one entry for
  each attribute field that the mapping configuration contains, in the declared order of
  the attribute ids 101 to 110; every entry has \<^verbatim>\<open>id\<close> null and
  \<^verbatim>\<open>productCategoryAttributeValueId\<close> the empty string; a field that the configuration
  lacks has no entry.
\<close>

theorem attribute_list_structure:
  assumes "transform_excel_row_to_api B now md row = Inr p"
  shows "map productCategoryAttributeId (attributeValueList p)
           = map snd (filter (\<lambda>fa. md (fst fa) \<noteq> None) get_attribute_mapping)
       \<and> subseq (map productCategoryAttributeId (attributeValueList p))
            [101, 102, 103, 104, 105, 106, 107, 108, 109, 110]
       \<and> map attr_id (attributeValueList p) = replicate (length (attributeValueList p)) None
       \<and> map productCategoryAttributeValueId (attributeValueList p)
            = replicate (length (attributeValueList p)) []"
proof -
  note ids = transform_attribute_ids [OF assms]
  have sub: "subseq (map productCategoryAttributeId (attributeValueList p))
      [101, 102, 103, 104, 105, 106, 107, 108, 109, 110]"
    unfolding ids using subseq_map_filter [of snd _ get_attribute_mapping]
    by (simp only: attribute_ids_declared)
  have ent: "attr_id e = None \<and> productCategoryAttributeValueId e = []"
    if "e \<in> set (attributeValueList p)" for e
    using transform_attribute_entries [OF assms that] by (auto simp: make_attribute_def)
  have a: "map attr_id (attributeValueList p) = replicate (length (attributeValueList p)) None"
    using ent by (simp add: map_replicate_const [symmetric] cong: map_cong)
  have b: "map productCategoryAttributeValueId (attributeValueList p)
      = replicate (length (attributeValueList p)) []"
    using ent by (simp add: map_replicate_const [symmetric] cong: map_cong)
  from ids sub a b show ?thesis by simp
qed

theorem attribute_list_structure_witness:
  "\<exists>p. transform_excel_row_to_api ascii_builtins example_now example_mapping example_row = Inr p
     \<and> map productCategoryAttributeId (attributeValueList p)
         = [101, 103, 104, 105, 106, 107, 108, 109, 110]
     \<and> map attr_id (attributeValueList p) = replicate 9 None
     \<and> map productCategoryAttributeValueId (attributeValueList p) = replicate 9 []"
proof -
  from example_transform_returns obtain p where
    p: "transform_excel_row_to_api ascii_builtins example_now example_mapping example_row = Inr p"
    by (auto dest: returns_Inr)
  note s = attribute_list_structure [OF p]
  from s have ids: "map productCategoryAttributeId (attributeValueList p)
      = [101, 103, 104, 105, 106, 107, 108, 109, 110]"
    by (simp only: example_configured_ids)
  then have "length (map productCategoryAttributeId (attributeValueList p)) = 9" by simp
  then have len: "length (attributeValueList p) = 9" by simp
  from s len have a: "map attr_id (attributeValueList p) = replicate 9 None"
    and b: "map productCategoryAttributeValueId (attributeValueList p) = replicate 9 []"
    by simp_all
  from p ids a b show ?thesis
    by - (rule exI [of _ p], intro conjI, assumption+)
qed

section \<open>Post-processing of the attributes\<close>

subsection \<open>The throttle speed\<close>

text \<open>The parts of the post-processing of attribute 104 that hold for every value.\<close>

lemma throttle_sentinels:
  "post_process B 104 (VStr s_infinity) = Inr VNone \<and> post_process B 104 (VStr ''-1'') = Inr VNone"
  by (simp add: post_process_def post_throttle_def)

lemma throttle_examples:
  "post_process ascii_builtins 104 (VStr ''128'') = Inr (VStr ''128 Kbps'')
   \<and> post_process ascii_builtins 104 (VStr ''1Mbps'') = Inr (VStr ''1 Mbps'')
   \<and> post_process ascii_builtins 104 (VStr ''2mbps'') = Inr (VStr ''2 Mbps'')
   \<and> post_process ascii_builtins 104 (VStr ''2MBPS'') = Inr (VStr ''2MBPS'')"
  by (simp add: model_defs)

text \<open>
  Claim C3: the post-processing of attribute 104 turns the sentinels into null, a digit
  string \<open>n\<close> into \<^verbatim>\<open>"n Kbps"\<close>, and a value with an \<^verbatim>\<open>Mbps\<close> or \<^verbatim>\<open>kbps\<close> variant into
  \<^verbatim>\<open>"<n> Mbps"\<close> or \<^verbatim>\<open>"<n> Kbps"\<close>. The last part fails for a value that is already in
  that form: the unit is replaced in the original text, not in the text without spaces,
  so \<^verbatim>\<open>"2 Mbps"\<close> gets a second space.
\<close>

theorem throttle_spaced_value:
  "post_process ascii_builtins 104 (VStr ''2 Mbps'') = Inr (VStr ''2  Mbps'')"
  by (simp add: model_defs)

subsection \<open>The coverage area\<close>

text \<open>
  The table of \<^verbatim>\<open>_get_national_area_mapping\<close> has 108 entries with 108 different names,
  not about 150.
\<close>

theorem area_table_entries:
  "length national_area_table = 108 \<and> distinct (map fst national_area_table)"
  by (simp add: national_area_table_def)

text \<open>
  Claim C4, amended: the value of the coverage-area attribute (id 107) is an integer or
  null. The text of the cell of the configured column is looked up in the area table of
  108 entries. A name of the table gives its code. Any other text is stripped: the empty
  text gives null, a text that parses as a finite float gives that float truncated
  towards zero, and a text that does not parse, or parses as NaN or an infinity, gives
  null. Without a configured column, or without that column in the row, the value is
  null.
\<close>

theorem coverage_area_slot:
  assumes "transform_excel_row_to_api B now md row = Inr p"
    and "e \<in> set (attributeValueList p)"
    and "productCategoryAttributeId e = 107"
  shows "(attributeValue e = VNone \<or> (\<exists>n. attributeValue e = VInt n))
       \<and> length national_area_table = 108
       \<and> (\<exists>m. md s_Pham_vi = Some m
            \<and> (\<forall>cell. \<not> isna (excel_mapping m) \<and> lookup_col row (excel_mapping m) = Some cell \<longrightarrow>
                 (\<forall>code. get_national_area_mapping (py_str B cell) = Some code
                      \<longrightarrow> attributeValue e = VInt code)
               \<and> (get_national_area_mapping (py_str B cell) = None \<longrightarrow>
                    attributeValue e = post_integer B (VStr (py_str B cell))
                  \<and> (str_strip B (py_str B cell) = [] \<longrightarrow> attributeValue e = VNone)
                  \<and> (float_of_str B (str_strip B (py_str B cell)) = None
                        \<longrightarrow> attributeValue e = VNone)
                  \<and> (\<forall>r. str_strip B (py_str B cell) \<noteq> []
                          \<and> float_of_str B (str_strip B (py_str B cell)) = Some (FFin r)
                        \<longrightarrow> attributeValue e = VInt (if 0 \<le> r then \<lfloor>r\<rfloor> else \<lceil>r\<rceil>))
                  \<and> (float_of_str B (str_strip B (py_str B cell)) = Some FNaN
                        \<longrightarrow> attributeValue e = VNone)
                  \<and> (\<forall>b. float_of_str B (str_strip B (py_str B cell)) = Some (FInf b)
                        \<longrightarrow> attributeValue e = VNone)))
            \<and> ((isna (excel_mapping m) \<or> lookup_col row (excel_mapping m) = None)
                 \<and> str_strip B [] = [] \<longrightarrow> attributeValue e = VNone))"
proof -
  from transform_attribute_entries [OF assms(1,2)] obtain f aid m v v' where
    f: "(f, aid) \<in> set get_attribute_mapping" and m: "md f = Some m" and
    v: "resolve_attribute B row f (excel_mapping m) (mapping_notes m) = Inr v" and
    v': "post_process B aid v = Inr v'" and e: "e = make_attribute aid v'"
    by blast
  from e assms(3) have aid: "aid = 107" by (simp add: make_attribute_def)
  from f aid have fp: "f = s_Pham_vi" by (simp add: coverage_field_unique)
  from v' aid have val: "attributeValue e = post_integer B v"
    by (simp add: post_process_107 e make_attribute_def)
  have ty: "attributeValue e = VNone \<or> (\<exists>n. attributeValue e = VInt n)"
    unfolding val by (rule post_integer_type)
  have size: "length national_area_table = 108"
    by (simp add: national_area_table_def)
  have mapped: "attributeValue e = VInt code"
    if "\<not> isna (excel_mapping m)" "lookup_col row (excel_mapping m) = Some cell"
      "get_national_area_mapping (py_str B cell) = Some code" for cell code
  proof -
    from v that have "v = VInt code" unfolding fp by (simp add: resolve_coverage_area)
    with area_code_bound [OF that(3)] show ?thesis
      unfolding val by (simp add: post_integer_int)
  qed
  have unmapped: "attributeValue e = post_integer B (VStr (py_str B cell))"
    if "\<not> isna (excel_mapping m)" "lookup_col row (excel_mapping m) = Some cell"
      "get_national_area_mapping (py_str B cell) = None" for cell
  proof -
    from v that have "v = VStr (py_str B cell)" unfolding fp by (simp add: resolve_coverage_area)
    then show ?thesis unfolding val by simp
  qed
  have absent: "attributeValue e = VNone"
    if "isna (excel_mapping m) \<or> lookup_col row (excel_mapping m) = None" "str_strip B [] = []"
  proof -
    from v that(1) have "v = VStr []" unfolding fp by (auto simp: resolve_coverage_area)
    with that(2) show ?thesis unfolding val by (simp add: post_integer_text)
  qed
  have look: "(\<forall>code. get_national_area_mapping (py_str B cell) = Some code
                      \<longrightarrow> attributeValue e = VInt code)
      \<and> (get_national_area_mapping (py_str B cell) = None \<longrightarrow>
            attributeValue e = post_integer B (VStr (py_str B cell))
          \<and> (str_strip B (py_str B cell) = [] \<longrightarrow> attributeValue e = VNone)
          \<and> (float_of_str B (str_strip B (py_str B cell)) = None
                \<longrightarrow> attributeValue e = VNone)
          \<and> (\<forall>r. str_strip B (py_str B cell) \<noteq> []
                  \<and> float_of_str B (str_strip B (py_str B cell)) = Some (FFin r)
                \<longrightarrow> attributeValue e = VInt (if 0 \<le> r then \<lfloor>r\<rfloor> else \<lceil>r\<rceil>))
          \<and> (float_of_str B (str_strip B (py_str B cell)) = Some FNaN
                \<longrightarrow> attributeValue e = VNone)
          \<and> (\<forall>b. float_of_str B (str_strip B (py_str B cell)) = Some (FInf b)
                \<longrightarrow> attributeValue e = VNone))"
    if c: "\<not> isna (excel_mapping m)" "lookup_col row (excel_mapping m) = Some cell" for cell
  proof (intro conjI allI impI)
    fix code assume "get_national_area_mapping (py_str B cell) = Some code"
    with c show "attributeValue e = VInt code" by (rule mapped)
  next
    assume n: "get_national_area_mapping (py_str B cell) = None"
    note u = unmapped [OF c n]
    show "attributeValue e = post_integer B (VStr (py_str B cell))" by (rule u)
    show "attributeValue e = VNone" if "str_strip B (py_str B cell) = []"
      unfolding u using that by (simp add: post_integer_text)
    show "attributeValue e = VNone" if "float_of_str B (str_strip B (py_str B cell)) = None"
      unfolding u using that by (simp add: post_integer_text)
    show "attributeValue e = VInt (if 0 \<le> r then \<lfloor>r\<rfloor> else \<lceil>r\<rceil>)"
      if "str_strip B (py_str B cell) \<noteq> []
        \<and> float_of_str B (str_strip B (py_str B cell)) = Some (FFin r)" for r
      unfolding u using that by (simp add: post_integer_text)
    show "attributeValue e = VNone" if "float_of_str B (str_strip B (py_str B cell)) = Some FNaN"
      unfolding u using that by (simp add: post_integer_text)
    show "attributeValue e = VNone"
      if "float_of_str B (str_strip B (py_str B cell)) = Some (FInf b)" for b
      unfolding u using that by (simp add: post_integer_text)
  qed
  have L: "\<forall>cell. \<not> isna (excel_mapping m) \<and> lookup_col row (excel_mapping m) = Some cell \<longrightarrow>
      (\<forall>code. get_national_area_mapping (py_str B cell) = Some code
                      \<longrightarrow> attributeValue e = VInt code)
      \<and> (get_national_area_mapping (py_str B cell) = None \<longrightarrow>
            attributeValue e = post_integer B (VStr (py_str B cell))
          \<and> (str_strip B (py_str B cell) = [] \<longrightarrow> attributeValue e = VNone)
          \<and> (float_of_str B (str_strip B (py_str B cell)) = None
                \<longrightarrow> attributeValue e = VNone)
          \<and> (\<forall>r. str_strip B (py_str B cell) \<noteq> []
                  \<and> float_of_str B (str_strip B (py_str B cell)) = Some (FFin r)
                \<longrightarrow> attributeValue e = VInt (if 0 \<le> r then \<lfloor>r\<rfloor> else \<lceil>r\<rceil>))
          \<and> (float_of_str B (str_strip B (py_str B cell)) = Some FNaN
                \<longrightarrow> attributeValue e = VNone)
          \<and> (\<forall>b. float_of_str B (str_strip B (py_str B cell)) = Some (FInf b)
                \<longrightarrow> attributeValue e = VNone))"
  proof (rule allI, rule impI)
    fix cell
    assume h: "\<not> isna (excel_mapping m) \<and> lookup_col row (excel_mapping m) = Some cell"
    from h [THEN conjunct1] h [THEN conjunct2] show "(\<forall>code. get_national_area_mapping (py_str B cell) = Some code
                      \<longrightarrow> attributeValue e = VInt code)
      \<and> (get_national_area_mapping (py_str B cell) = None \<longrightarrow>
            attributeValue e = post_integer B (VStr (py_str B cell))
          \<and> (str_strip B (py_str B cell) = [] \<longrightarrow> attributeValue e = VNone)
          \<and> (float_of_str B (str_strip B (py_str B cell)) = None
                \<longrightarrow> attributeValue e = VNone)
          \<and> (\<forall>r. str_strip B (py_str B cell) \<noteq> []
                  \<and> float_of_str B (str_strip B (py_str B cell)) = Some (FFin r)
                \<longrightarrow> attributeValue e = VInt (if 0 \<le> r then \<lfloor>r\<rfloor> else \<lceil>r\<rceil>))
          \<and> (float_of_str B (str_strip B (py_str B cell)) = Some FNaN
                \<longrightarrow> attributeValue e = VNone)
          \<and> (\<forall>b. float_of_str B (str_strip B (py_str B cell)) = Some (FInf b)
                \<longrightarrow> attributeValue e = VNone))"
      by (rule look)
  qed
  have A: "(isna (excel_mapping m) \<or> lookup_col row (excel_mapping m) = None)
      \<and> str_strip B [] = [] \<longrightarrow> attributeValue e = VNone"
  proof (rule impI)
    assume h: "(isna (excel_mapping m) \<or> lookup_col row (excel_mapping m) = None)
      \<and> str_strip B [] = []"
    from h [THEN conjunct1] h [THEN conjunct2] show "attributeValue e = VNone" by (rule absent)
  qed
  from m have m': "md s_Pham_vi = Some m" unfolding fp .
  from ty size m' L A show ?thesis
    by - (rule conjI, assumption, rule conjI, assumption, rule exI [of _ m],
        rule conjI, assumption, rule conjI, assumption, assumption)
qed

theorem coverage_area_slot_witness:
  "(\<exists>p e. transform_excel_row_to_api ascii_builtins example_now example_mapping example_row = Inr p
     \<and> e \<in> set (attributeValueList p) \<and> productCategoryAttributeId e = 107
     \<and> attributeValue e = VInt 35)
   \<and> (\<exists>p e. transform_excel_row_to_api ascii_builtins example_now area_mapping numeric_area_row
         = Inr p
     \<and> e \<in> set (attributeValueList p) \<and> productCategoryAttributeId e = 107
     \<and> get_national_area_mapping '' 35 '' = None
     \<and> attributeValue e = VInt 35)"
proof -
  have first: "\<exists>p e. transform_excel_row_to_api ascii_builtins example_now example_mapping
        example_row = Inr p
     \<and> e \<in> set (attributeValueList p) \<and> productCategoryAttributeId e = 107
     \<and> attributeValue e = VInt 35"
  proof -
    from example_transform_returns obtain p where
      p: "transform_excel_row_to_api ascii_builtins example_now example_mapping example_row = Inr p"
      by (auto dest: returns_Inr)
    have "map productCategoryAttributeId (attributeValueList p)
        = [101, 103, 104, 105, 106, 107, 108, 109, 110]"
      using transform_attribute_ids [OF p] by (simp only: example_configured_ids)
    then have "107 \<in> set (map productCategoryAttributeId (attributeValueList p))" by simp
    then obtain e where e: "e \<in> set (attributeValueList p)" "productCategoryAttributeId e = 107"
      by auto
    have m: "example_mapping s_Pham_vi
        = Some \<lparr> excel_mapping = VStr ''National Area'', mapping_notes = VStr ''column'' \<rparr>"
      by (simp add: model_defs)
    have c: "lookup_col example_row (VStr ''National Area'') = Some (VStr ''Vietnam'')"
      by (simp add: model_defs)
    have a: "get_national_area_mapping (py_str ascii_builtins (VStr ''Vietnam'')) = Some 35"
      by (simp add: model_defs)
    from coverage_area_slot [OF p e] m c a have "attributeValue e = VInt 35" by simp
    with p e show ?thesis by blast
  qed
  have second: "\<exists>p e. transform_excel_row_to_api ascii_builtins example_now area_mapping
        numeric_area_row = Inr p
     \<and> e \<in> set (attributeValueList p) \<and> productCategoryAttributeId e = 107
     \<and> get_national_area_mapping '' 35 '' = None
     \<and> attributeValue e = VInt 35"
  proof -
    from example_area_transform_returns obtain p where
      p: "transform_excel_row_to_api ascii_builtins example_now area_mapping numeric_area_row
            = Inr p"
      by (auto dest: returns_Inr)
    have "map productCategoryAttributeId (attributeValueList p) = [107]"
      using transform_attribute_ids [OF p] by (simp only: example_area_configured_ids)
    then have "107 \<in> set (map productCategoryAttributeId (attributeValueList p))" by simp
    then obtain e where e: "e \<in> set (attributeValueList p)" "productCategoryAttributeId e = 107"
      by auto
    have m: "area_mapping s_Pham_vi
        = Some \<lparr> excel_mapping = VStr ''National Area'', mapping_notes = VStr ''column'' \<rparr>"
      by (simp add: model_defs)
    have c: "lookup_col numeric_area_row (VStr ''National Area'') = Some (VStr '' 35 '')"
      by (simp add: model_defs)
    have a: "get_national_area_mapping '' 35 '' = None"
      by (simp add: model_defs)
    have s: "str_strip ascii_builtins '' 35 '' = ''35''"
      by (simp add: model_defs)
    have f: "float_of_str ascii_builtins ''35'' = Some (FFin 35)"
      by (simp add: model_defs)
    from coverage_area_slot [OF p e] m c a s f
    have "attributeValue e = VInt (if 0 \<le> (35::rat) then \<lfloor>35::rat\<rfloor> else \<lceil>35::rat\<rceil>)"
      by auto
    then have "attributeValue e = VInt 35" by simp
    with p e a show ?thesis by blast
  qed
  from first second show ?thesis by (rule conjI)
qed

section \<open>The API client\<close>

text \<open>
  Claim C9: \<^verbatim>\<open>send_to_api\<close> supports only POST and PUT; for a configuration whose method
  is neither, whatever its case, it raises ValueError to the caller and issues no request.
\<close>

theorem send_to_api_unsupported_method:
  assumes "str_upper B (api_method cfg) \<noteq> ''POST''"
    and "str_upper B (api_method cfg) \<noteq> ''PUT''"
  shows "send_to_api B net1 cfg data
           = (Inl (ValueError (''Unsupported HTTP method: '' @ api_method cfg)), [])"
  using assms by (simp add: send_to_api_def)

theorem send_to_api_unsupported_method_witness:
  "str_upper ascii_builtins (api_method delete_config) \<noteq> ''POST''
   \<and> str_upper ascii_builtins (api_method delete_config) \<noteq> ''PUT''
   \<and> send_to_api ascii_builtins (unreachable_net 0) delete_config get_default_api_payload
       = (Inl (ValueError ''Unsupported HTTP method: DELETE''), [])"
proof -
  have u: "str_upper ascii_builtins (api_method delete_config) = ''DELETE''"
    by (simp add: model_defs)
  from send_to_api_unsupported_method [of ascii_builtins delete_config "unreachable_net 0"
      get_default_api_payload] u
  show ?thesis by (simp add: delete_config_def example_config_def)
qed

section \<open>The product code\<close>

text \<open>
  A label of the row is found in the row; with distinct labels, the cell found for a
  \<^verbatim>\<open>str\<close> label is the one that stands beside it.
\<close>

lemma label_eq_str: "label_eq l (VStr s) = (l = VStr s)"
  by (cases l) auto

lemma label_eq_refl: "label_eq c c"
  by (cases "(c, c)" rule: label_eq.cases) auto

lemma find_label_own: "(c, v) \<in> set row \<Longrightarrow> \<exists>v'. find_label row c = Some v'"
  by (induction row) (auto simp: label_eq_refl)

lemma find_label_distinct:
  "distinct (map fst row) \<Longrightarrow> (VStr s, v) \<in> set row \<Longrightarrow> find_label row (VStr s) = Some v"
  by (induction row) (auto simp: label_eq_str rev_image_eqI)

lemma row_get_distinct:
  "distinct (map fst row) \<Longrightarrow> (VStr s, v) \<in> set row \<Longrightarrow> row_get B row (VStr s) = Inr v"
  by (simp add: row_get_def find_label_distinct)

lemma scan_code_columns_value:
  assumes "distinct (map fst row)"
  shows "set xs \<subseteq> set row \<Longrightarrow> list_all is_str (map fst xs) \<Longrightarrow>
    scan_code_columns B row (map fst xs) (sk, dy) =
      Inr (if filter (\<lambda>cv. (case fst cv of VStr name \<Rightarrow> py_in ''SKUID'' (str_upper B name)
                                | _ \<Rightarrow> False) \<and> \<not> isna (snd cv)) xs = []
           then sk
           else py_str B (snd (last
             (filter (\<lambda>cv. (case fst cv of VStr name \<Rightarrow> py_in ''SKUID'' (str_upper B name)
                              | _ \<Rightarrow> False) \<and> \<not> isna (snd cv)) xs))),
           if filter (\<lambda>cv. (case fst cv of VStr name \<Rightarrow> str_lower B (str_strip B name) = ''days''
                              | _ \<Rightarrow> False) \<and> \<not> isna (snd cv)) xs = []
           then dy
           else py_str B (snd (last
             (filter (\<lambda>cv. (case fst cv of VStr name \<Rightarrow> str_lower B (str_strip B name) = ''days''
                              | _ \<Rightarrow> False) \<and> \<not> isna (snd cv)) xs))))"
proof (induction xs arbitrary: sk dy)
  case Nil
  show ?case by simp
next
  case (Cons x xs)
  from Cons.prems(2) obtain name v where x: "x = (VStr name, v)"
    by (cases x; cases "fst x") auto
  from Cons.prems(1) x have "(VStr name, v) \<in> set row" by simp
  with assms have g: "row_get B row (VStr name) = Inr v" by (rule row_get_distinct)
  from Cons.prems have sub: "set xs \<subseteq> set row" and str: "list_all is_str (map fst xs)"
    by simp_all
  show ?case
    unfolding x by (simp add: g Cons.IH [OF sub str])
qed

text \<open>A label that is not a \<^verbatim>\<open>str\<close> stops the scan with the AttributeError of \<^verbatim>\<open>col.upper()\<close>.\<close>

lemma scan_code_columns_step:
  assumes "find_label row (VStr name) = Some v"
  shows "\<exists>st'. scan_code_columns B row (VStr name # cols) st = scan_code_columns B row cols st'"
proof (cases st)
  case (Pair sk dy)
  have "scan_code_columns B row (VStr name # cols) (sk, dy)
      = scan_code_columns B row cols
          (if py_in ''SKUID'' (str_upper B name) \<and> \<not> isna v then py_str B v else sk,
           if str_lower B (str_strip B name) = ''days'' \<and> \<not> isna v then py_str B v else dy)"
    using assms by (simp add: row_get_def)
  then show ?thesis unfolding Pair by (rule exI)
qed

lemma scan_code_columns_raises:
  "set xs \<subseteq> set row \<Longrightarrow> \<not> list_all is_str (map fst xs) \<Longrightarrow>
     \<exists>c. c \<in> set (map fst xs) \<and> \<not> is_str c
        \<and> scan_code_columns B row (map fst xs) st = Inl (no_attribute c ''upper'')"
proof (induction xs arbitrary: st)
  case Nil
  then show ?case by simp
next
  case (Cons x xs)
  obtain l v where x: "x = (l, v)" by (cases x)
  show ?case
  proof (cases "is_str l")
    case False
    then have "scan_code_columns B row (map fst (x # xs)) st = Inl (no_attribute l ''upper'')"
      unfolding x by (cases st; cases l) simp_all
    with False x show ?thesis by auto
  next
    case True
    then obtain name where l: "l = VStr name" by (cases l) auto
    from Cons.prems(1) x l have "(VStr name, v) \<in> set row" by simp
    then obtain v' where "find_label row (VStr name) = Some v'"
      using find_label_own by blast
    from scan_code_columns_step [OF this, of B "map fst xs" st] obtain st' where
      step: "scan_code_columns B row (map fst (x # xs)) st
               = scan_code_columns B row (map fst xs) st'"
      unfolding x l by auto
    from Cons.prems True have "set xs \<subseteq> set row" "\<not> list_all is_str (map fst xs)"
      unfolding x by simp_all
    from Cons.IH [OF this, of st'] step show ?thesis by auto
  qed
qed

text \<open>The timestamp \<^verbatim>\<open>%Y%m%d%H%M%S\<close> has 14 characters, all of them digits.\<close>

lemma digit_char_digit: "d < 10 \<Longrightarrow> ascii_digit (digit_char d)"
proof -
  assume "d < 10"
  then have "d \<in> {0, 1, 2, 3, 4, 5, 6, 7, 8, 9}" by auto
  then show ?thesis by (auto simp: ascii_digit_def digit_char_def)
qed

lemma str_of_nat_digits: "list_all ascii_digit (str_of_nat n)"
proof (induction n rule: str_of_nat.induct)
  case (1 n)
  show ?case
  proof (cases "n < 10")
    case True
    then show ?thesis by (simp add: str_of_nat.simps [of n] digit_char_digit)
  next
    case False
    with 1 have "list_all ascii_digit (str_of_nat (n div 10))" by simp
    with False show ?thesis by (simp add: str_of_nat.simps [of n] digit_char_digit)
  qed
qed

lemma str_of_nat_length: "n < 10 ^ Suc w \<Longrightarrow> length (str_of_nat n) \<le> Suc w"
proof (induction w arbitrary: n)
  case 0
  then show ?case by (simp add: str_of_nat.simps [of n])
next
  case (Suc w)
  show ?case
  proof (cases "n < 10")
    case True
    then show ?thesis by (simp add: str_of_nat.simps [of n])
  next
    case False
    from Suc.prems have "n div 10 < 10 ^ Suc w" by (simp add: less_mult_imp_div_less)
    from Suc.IH [OF this] False show ?thesis by (simp add: str_of_nat.simps [of n])
  qed
qed

lemma zero_pad_length: "n < 10 ^ Suc w \<Longrightarrow> length (zero_pad (Suc w) n) = Suc w"
  using str_of_nat_length [of n w] by (simp add: zero_pad_def)

lemma zero_pad_digits: "list_all ascii_digit (zero_pad w n)"
proof -
  have z: "ascii_digit CHR ''0''" by (simp add: ascii_digit_def)
  have "list_all ascii_digit (replicate k CHR ''0'')" for k
    by (induction k) (simp_all add: z)
  then show ?thesis by (simp add: zero_pad_def str_of_nat_digits)
qed

lemma strftime_compact_shape:
  assumes "valid_datetime t"
  shows "length (strftime_compact t) = 14 \<and> list_all ascii_digit (strftime_compact t)"
proof -
  from assms have b: "dt_year t < 10 ^ Suc 3" "dt_month t < 10 ^ Suc 1" "dt_day t < 10 ^ Suc 1"
    "dt_hour t < 10 ^ Suc 1" "dt_minute t < 10 ^ Suc 1" "dt_second t < 10 ^ Suc 1"
    by (simp_all add: valid_datetime_def)
  have "length (zero_pad 4 (dt_year t)) = 4" "length (zero_pad 2 (dt_month t)) = 2"
    "length (zero_pad 2 (dt_day t)) = 2" "length (zero_pad 2 (dt_hour t)) = 2"
    "length (zero_pad 2 (dt_minute t)) = 2" "length (zero_pad 2 (dt_second t)) = 2"
    using b [THEN zero_pad_length] by (simp_all add: numeral_2_eq_2 eval_nat_numeral)
  then show ?thesis by (simp add: strftime_compact_def zero_pad_digits)
qed

text \<open>
  A row with a SKUID cell and a Days cell that are not null, for which the product code is
  not \<^verbatim>\<open>"{skuid}-{days}"\<close>: the SKUID cell is the empty string.
\<close>

theorem empty_skuid_product_code:
  "lookup_col empty_skuid_row (VStr ''SKUID'') = Some (VStr []) \<and> \<not> isna (VStr [])
   \<and> lookup_col empty_skuid_row (VStr ''Days'') = Some (VStr ''7'') \<and> \<not> isna (VStr ''7'')
   \<and> generate_product_code ascii_builtins example_now empty_skuid_row
       = Inr ''SIM-20250601090507''"
  by (simp add: model_defs)

text \<open>
  Claim C5, amended: for a row whose column labels are distinct strings the generation
  of the product code returns. With \<open>skuid\<close> the text of the last cell that is not null in
  a column whose name contains \<^verbatim>\<open>SKUID\<close> in any case, and \<open>days\<close> the text of the last cell
  that is not null in a column whose trimmed name is \<^verbatim>\<open>days\<close> in any case (the empty
  string when there is no such cell), the code is \<^verbatim>\<open>"{skuid}-{days}"\<close> when both texts are
  not empty, \<open>skuid\<close> when only \<open>skuid\<close> is not empty, and otherwise \<^verbatim>\<open>"SIM-"\<close> followed by
  the timestamp of 14 digits. For a row with a column label that is not a string, as a
  numeric header cell gives, the generation raises AttributeError.
\<close>

theorem product_code_value:
  "(distinct (map fst row) \<and> list_all is_str (map fst row) \<longrightarrow>
      generate_product_code B now row =
        Inr (let skuid = column_value B row (\<lambda>c. py_in ''SKUID'' (str_upper B c));
                 days = column_value B row (\<lambda>c. str_lower B (str_strip B c) = ''days'')
             in if skuid \<noteq> [] \<and> days \<noteq> [] then skuid @ ''-'' @ days
                else if skuid \<noteq> [] then skuid
                else ''SIM-'' @ strftime_compact now))
   \<and> (\<not> list_all is_str (map fst row) \<longrightarrow>
        (\<exists>c. c \<in> set (map fst row) \<and> \<not> is_str c
           \<and> generate_product_code B now row = Inl (no_attribute c ''upper'')))
   \<and> (valid_datetime now \<longrightarrow>
        length (strftime_compact now) = 14 \<and> list_all ascii_digit (strftime_compact now))
   \<and> (\<forall>md p. transform_excel_row_to_api B now md row = Inr p \<longrightarrow>
        generate_product_code B now row = Inr (productCode p))"
proof -
  have a: "generate_product_code B now row =
      Inr (let skuid = column_value B row (\<lambda>c. py_in ''SKUID'' (str_upper B c));
               days = column_value B row (\<lambda>c. str_lower B (str_strip B c) = ''days'')
           in if skuid \<noteq> [] \<and> days \<noteq> [] then skuid @ ''-'' @ days
              else if skuid \<noteq> [] then skuid
              else ''SIM-'' @ strftime_compact now)"
    if d: "distinct (map fst row)" and t: "list_all is_str (map fst row)"
  proof -
    have "scan_code_columns B row (map fst row) ([], []) =
        Inr (column_value B row (\<lambda>c. py_in ''SKUID'' (str_upper B c)),
             column_value B row (\<lambda>c. str_lower B (str_strip B c) = ''days''))"
      using scan_code_columns_value [OF d _ t, of B "[]" "[]"]
      by (simp add: column_value_def Let_def)
    then show ?thesis by (simp add: generate_product_code_def Let_def)
  qed
  have b: "\<exists>c. c \<in> set (map fst row) \<and> \<not> is_str c
      \<and> generate_product_code B now row = Inl (no_attribute c ''upper'')"
    if "\<not> list_all is_str (map fst row)"
  proof -
    from scan_code_columns_raises [OF subset_refl that, of B "([], [])"] obtain c where
      "c \<in> set (map fst row)" "\<not> is_str c"
      "scan_code_columns B row (map fst row) ([], []) = Inl (no_attribute c ''upper'')"
      by blast
    then show ?thesis by (auto simp: generate_product_code_def)
  qed
  have c: "generate_product_code B now row = Inr (productCode p)"
    if "transform_excel_row_to_api B now md row = Inr p" for md p
    using that by (rule transform_Inr_cases) simp
  from a b c strftime_compact_shape [of now] show ?thesis by blast
qed

theorem product_code_value_witness:
  "distinct (map fst example_row) \<and> list_all is_str (map fst example_row)
   \<and> valid_datetime example_now
   \<and> generate_product_code ascii_builtins example_now example_row = Inr ''TEST001-30''
   \<and> length (strftime_compact example_now) = 14
   \<and> \<not> list_all is_str (map fst numeric_header_row)
   \<and> generate_product_code ascii_builtins example_now numeric_header_row
       = Inl (no_attribute (VInt 2024) ''upper'')"
proof -
  have d: "distinct (map fst example_row)" by (simp add: example_row_def)
  have t: "list_all is_str (map fst example_row)" by (simp add: example_row_def)
  have v: "valid_datetime example_now" by (simp add: valid_datetime_def example_now_def)
  have s: "column_value ascii_builtins example_row (\<lambda>c. py_in ''SKUID'' (str_upper ascii_builtins c))
      = ''TEST001''"
    by (simp add: column_value_def model_defs)
  have y: "column_value ascii_builtins example_row
      (\<lambda>c. str_lower ascii_builtins (str_strip ascii_builtins c) = ''days'') = ''30''"
    by (simp add: column_value_def model_defs)
  from product_code_value [of example_row ascii_builtins example_now] d t v s y
  have first: "generate_product_code ascii_builtins example_now example_row = Inr ''TEST001-30''"
    "length (strftime_compact example_now) = 14"
    by simp_all
  have n: "\<not> list_all is_str (map fst numeric_header_row)"
    by (simp add: numeric_header_row_def)
  with product_code_value [of numeric_header_row ascii_builtins example_now] obtain c where
    c: "c \<in> set (map fst numeric_header_row)" "\<not> is_str c"
      "generate_product_code ascii_builtins example_now numeric_header_row
         = Inl (no_attribute c ''upper'')"
    by blast
  from c(1,2) have "c = VInt 2024" by (auto simp: numeric_header_row_def)
  with c(3) have second: "generate_product_code ascii_builtins example_now numeric_header_row
      = Inl (no_attribute (VInt 2024) ''upper'')"
    by simp
  from d t v first n second show ?thesis by simp
qed

section \<open>Properties of the batch runner\<close>

subsection \<open>The loop\<close>

text \<open>A row that is not skipped appends exactly one result, which reports its number.\<close>

lemma process_row_fst:
  "\<exists>x calls'. process_row B net clock md cfg dry_run index r st = (fst st @ [x], calls')
     \<and> res_row x = int index + 1"
  by (cases st)
    (auto simp: process_row_def row_failed_result_def dry_run_result_def handle_send_error_def
      request_failed_result_def sent_result_def split: sum.splits prod.splits)

lemma process_rows_append:
  "process_rows B net clock md cfg dry_run s index (xs @ ys) st
     = process_rows B net clock md cfg dry_run s (index + length xs) ys
         (process_rows B net clock md cfg dry_run s index xs st)"
  by (induction xs arbitrary: index st) simp_all

lemma process_rows_extends:
  "\<exists>zs. fst (process_rows B net clock md cfg dry_run s index rows st) = fst st @ zs"
proof (induction rows arbitrary: index st)
  case Nil
  show ?case by simp
next
  case (Cons r rows)
  show ?case
  proof (cases "int index + 1 < s")
    case True
    with Cons.IH [of "Suc index" st] show ?thesis by simp
  next
    case False
    obtain x calls' where
      x: "process_row B net clock md cfg dry_run index r st = (fst st @ [x], calls')"
      using process_row_fst by blast
    from Cons.IH [of "Suc index" "(fst st @ [x], calls')"] obtain zs where
      "fst (process_rows B net clock md cfg dry_run s (Suc index) rows (fst st @ [x], calls'))
         = (fst st @ [x]) @ zs"
      by auto
    with False x show ?thesis by simp
  qed
qed

lemma process_rows_rows:
  "map res_row (fst (process_rows B net clock md cfg dry_run s index rows st))
     = map res_row (fst st)
       @ filter (\<lambda>i. s \<le> i) (map (\<lambda>k. int k + 1) [index..<index + length rows])"
proof (induction rows arbitrary: index st)
  case Nil
  show ?case by simp
next
  case (Cons r rows)
  have u: "[index..<Suc (index + length rows)] = index # [Suc index..<Suc (index + length rows)]"
    by (rule upt_conv_Cons) simp
  show ?case
  proof (cases "int index + 1 < s")
    case True
    with Cons.IH [of "Suc index" st] show ?thesis by (simp del: upt_Suc add: u)
  next
    case False
    obtain x calls' where
      x: "process_row B net clock md cfg dry_run index r st = (fst st @ [x], calls')"
        "res_row x = int index + 1"
      using process_row_fst by blast
    from False x Cons.IH [of "Suc index" "(fst st @ [x], calls')"] show ?thesis
      by (simp del: upt_Suc add: u)
  qed
qed

lemma filter_rows_upto:
  "filter (\<lambda>i. s \<le> i) (map (\<lambda>k. int k + 1) [0..<n]) = [max 1 s..int n]"
proof (induction n)
  case 0
  show ?case by simp
next
  case (Suc n)
  show ?case
  proof (cases "s \<le> int n + 1")
    case True
    then have "[max 1 s..int (Suc n)] = [max 1 s..int n] @ [int n + 1]"
      using upto_rec2 [of "max 1 s" "int n + 1"] by (simp add: add.commute)
    with True Suc.IH show ?thesis by simp
  next
    case False
    then have "[max 1 s..int (Suc n)] = []" "[max 1 s..int n] = []" by simp_all
    with False Suc.IH show ?thesis by simp
  qed
qed

lemma length_rows_upto: "length [max 1 s..int n] = n - nat (s - 1)"
  by (simp add: max_def) arith

lemma process_excel_file_rows:
  "map res_row (fst (process_excel_file B net clock md cfg rows dry_run s))
     = [max 1 s..int (length rows)]"
  unfolding process_excel_file_def
  using process_rows_rows [of B net clock md cfg dry_run s 0 rows "([], [])"]
  by (simp add: filter_rows_upto)

lemma process_excel_file_length:
  "length (fst (process_excel_file B net clock md cfg rows dry_run s))
     = length rows - nat (s - 1)"
proof -
  have "length (map res_row (fst (process_excel_file B net clock md cfg rows dry_run s)))
      = length [max 1 s..int (length rows)]"
    by (simp only: process_excel_file_rows)
  then show ?thesis by (simp only: length_map length_rows_upto)
qed

text \<open>
  The result of the row \<open>i\<close> stands at the position \<open>i - (s - 1)\<close> of the list, and is the
  one that the loop body appends in the state that the rows before it have left.
\<close>

lemma row_result_position:
  assumes i: "i < length rows" and s: "s \<le> int i + 1"
  shows "fst (process_excel_file B net clock md cfg rows dry_run s) ! (i - nat (s - 1))
       = last (fst (process_row B net clock md cfg dry_run i (rows ! i)
                     (process_excel_file B net clock md cfg (take i rows) dry_run s)))"
proof -
  let ?st1 = "process_excel_file B net clock md cfg (take i rows) dry_run s"
  obtain x calls' where
    x: "process_row B net clock md cfg dry_run i (rows ! i) ?st1 = (fst ?st1 @ [x], calls')"
    using process_row_fst by blast
  from i have split: "rows = take i rows @ (rows ! i) # drop (Suc i) rows"
    by (simp add: id_take_nth_drop)
  from i have li: "length (take i rows) = i" by simp
  have "process_excel_file B net clock md cfg rows dry_run s
      = process_rows B net clock md cfg dry_run s i ((rows ! i) # drop (Suc i) rows) ?st1"
    unfolding process_excel_file_def
    using process_rows_append [of B net clock md cfg dry_run s 0 "take i rows"
        "(rows ! i) # drop (Suc i) rows" "([], [])"] split li
    by simp
  also from s x have "\<dots> = process_rows B net clock md cfg dry_run s (Suc i)
      (drop (Suc i) rows) (fst ?st1 @ [x], calls')"
    by simp
  finally have e: "process_excel_file B net clock md cfg rows dry_run s
      = process_rows B net clock md cfg dry_run s (Suc i) (drop (Suc i) rows)
          (fst ?st1 @ [x], calls')" .
  from process_rows_extends [of B net clock md cfg dry_run s "Suc i" "drop (Suc i) rows"
      "(fst ?st1 @ [x], calls')"]
  obtain zs where
    "fst (process_excel_file B net clock md cfg rows dry_run s) = (fst ?st1 @ [x]) @ zs"
    unfolding e by auto
  moreover from s li have "length (fst ?st1) = i - nat (s - 1)"
    by (simp add: process_excel_file_length)
  ultimately have "fst (process_excel_file B net clock md cfg rows dry_run s) ! (i - nat (s - 1)) = x"
    by (simp add: nth_append)
  with x show ?thesis by simp
qed

subsection \<open>The start row\<close>

text \<open>
  The loop is the loop body run over the numbered rows that are not skipped, and these
  are the rows left when the first \<open>s - 1\<close> are dropped: a skipped row changes neither
  the results nor the requests.
\<close>

lemma process_rows_run:
  "process_rows B net clock md cfg dry_run s index rows st
     = run_rows B net clock md cfg dry_run
         (filter (\<lambda>kr. s \<le> int (fst kr) + 1) (enumerate index rows)) st"
  by (induction rows arbitrary: index st) (simp_all add: run_rows_def)

lemma filter_enumerate_drop:
  "filter (\<lambda>kr. s \<le> int (fst kr) + 1) (enumerate i rows)
     = drop (nat (s - 1) - i) (enumerate i rows)"
proof (induction rows arbitrary: i)
  case Nil
  show ?case by simp
next
  case (Cons r rows)
  show ?case
  proof (cases "s \<le> int i + 1")
    case True
    then have "nat (s - 1) - i = 0" "nat (s - 1) - Suc i = 0" by simp_all
    with True Cons.IH [of "Suc i"] show ?thesis by simp
  next
    case False
    then have "nat (s - 1) - i = Suc (nat (s - 1) - Suc i)" by simp
    with False Cons.IH [of "Suc i"] show ?thesis by simp
  qed
qed

lemma process_excel_file_run:
  "process_excel_file B net clock md cfg rows dry_run s
     = run_rows B net clock md cfg dry_run (drop (nat (s - 1)) (enumerate 0 rows)) ([], [])"
  unfolding process_excel_file_def process_rows_run
  using filter_enumerate_drop [of s 0 rows] by simp

lemma nan_note_transform_raises:
  "transform_excel_row_to_api ascii_builtins t nan_note_mapping package_row
     = Inl (no_attribute (VFloat FNaN) ''lower'')"
  by (simp add: model_defs)

lemma nan_note_empty_skuid_returns:
  "returns (transform_excel_row_to_api ascii_builtins example_now nan_note_mapping empty_skuid_row)"
  by (simp add: model_defs)

lemma unreachable_send:
  "send_to_api ascii_builtins (unreachable_net k) example_config p
     = (Inl (RequestException ''connection refused'' None), [make_request ''POST'' example_config p])"
  by (simp add: send_to_api_def issue_request_def model_defs)

text \<open>
  Claim C6: for a run over \<open>n\<close> rows with the start row \<open>s\<close>, a 1-based row number, the
  rows before \<open>s\<close> are skipped entirely: they produce no result and no request, and the run
  is the loop body run over the rows from \<open>s\<close> on. The remaining rows produce one result
  each, so \<open>n - s + 1\<close> of them when \<open>s \<le> n\<close>, and the reported row numbers are
  \<open>s, ..., n\<close> in order.
\<close>

theorem start_row_reported_rows:
  assumes "1 \<le> s"
  shows "map res_row (fst (process_excel_file B net clock md cfg rows dry_run s))
           = [s..int (length rows)]
       \<and> length (fst (process_excel_file B net clock md cfg rows dry_run s))
           = nat (int (length rows) - s + 1)
       \<and> process_excel_file B net clock md cfg rows dry_run s
           = run_rows B net clock md cfg dry_run (drop (nat (s - 1)) (enumerate 0 rows)) ([], [])
       \<and> process_excel_file B net clock md cfg (take (nat (s - 1)) rows) dry_run s = ([], [])"
proof -
  from assms have m: "max 1 s = s" by simp
  have r: "map res_row (fst (process_excel_file B net clock md cfg rows dry_run s))
      = [s..int (length rows)]"
    using process_excel_file_rows [of B net clock md cfg rows dry_run s] by (simp only: m)
  have "length (map res_row (fst (process_excel_file B net clock md cfg rows dry_run s)))
      = length [s..int (length rows)]"
    by (simp only: r)
  then have l: "length (fst (process_excel_file B net clock md cfg rows dry_run s))
      = nat (int (length rows) - s + 1)"
    by simp
  note run = process_excel_file_run [of B net clock md cfg rows dry_run s]
  have before: "process_excel_file B net clock md cfg (take (nat (s - 1)) rows) dry_run s
      = ([], [])"
    unfolding process_excel_file_run by (simp add: run_rows_def)
  from r l run before show ?thesis by simp
qed

theorem start_row_reported_rows_witness:
  "(1::int) \<le> 2
   \<and> map res_row (fst (process_excel_file ascii_builtins unreachable_net example_clock
         nan_note_mapping example_config [package_row, empty_skuid_row, empty_skuid_row]
         False 2))
       = [2, 3]
   \<and> length (snd (process_excel_file ascii_builtins unreachable_net example_clock
         nan_note_mapping example_config [package_row, empty_skuid_row, empty_skuid_row]
         False 2))
       = 2
   \<and> process_excel_file ascii_builtins unreachable_net example_clock nan_note_mapping
         example_config [package_row] False 2 = ([], [])"
proof -
  have one: "(1::int) \<le> 2" by simp
  note t = start_row_reported_rows [OF one, of ascii_builtins unreachable_net example_clock
      nan_note_mapping example_config "[package_row, empty_skuid_row, empty_skuid_row]" False]
  note u = start_row_reported_rows [OF one, of ascii_builtins unreachable_net example_clock
      nan_note_mapping example_config "[package_row, empty_skuid_row]" False]
  from nan_note_empty_skuid_returns obtain p where
    p: "transform_excel_row_to_api ascii_builtins example_now nan_note_mapping empty_skuid_row
          = Inr p"
    by (auto dest: returns_Inr)
  from t [THEN conjunct1] have rows: "map res_row (fst (process_excel_file ascii_builtins
      unreachable_net example_clock nan_note_mapping example_config
      [package_row, empty_skuid_row, empty_skuid_row] False 2)) = [2, 3]"
    by (simp add: upto_rec1)
  from t [THEN conjunct2, THEN conjunct2, THEN conjunct1]
  have "process_excel_file ascii_builtins unreachable_net example_clock nan_note_mapping
      example_config [package_row, empty_skuid_row, empty_skuid_row] False 2
      = run_rows ascii_builtins unreachable_net example_clock nan_note_mapping example_config
          False [(Suc 0, empty_skuid_row), (Suc (Suc 0), empty_skuid_row)] ([], [])"
    by (simp add: enumerate_simps)
  then have calls: "length (snd (process_excel_file ascii_builtins unreachable_net example_clock
      nan_note_mapping example_config [package_row, empty_skuid_row, empty_skuid_row]
      False 2)) = 2"
    by (simp add: run_rows_def process_row_def example_clock_def p unreachable_send)
  from u [THEN conjunct2, THEN conjunct2, THEN conjunct2]
  have before: "process_excel_file ascii_builtins unreachable_net example_clock nan_note_mapping
      example_config [package_row] False 2 = ([], [])"
    by simp
  from rows calls before show ?thesis by simp
qed

subsection \<open>Rows that fail\<close>

lemma failed_results:
  "res_status (row_failed_result n e) = ''failed''
   \<and> res_error (row_failed_result n e) = Some (exc_message e)
   \<and> res_row (row_failed_result n e) = n
   \<and> res_status (handle_send_error n p e) = ''failed''
   \<and> res_error (handle_send_error n p e) = Some (exc_message e)
   \<and> res_row (handle_send_error n p e) = n"
  by (simp add: row_failed_result_def handle_send_error_def request_failed_result_def)

text \<open>
  Claim C7: when the mapping or the sending of a row raises, the batch runner records for
  that row a result with the status \<^verbatim>\<open>"failed"\<close> and the error message, and goes on: every
  row from the start row on has its result, whatever happened to the rows before it.
\<close>

theorem failed_row_recorded:
  assumes "i < length rows" and "s \<le> int i + 1"
  shows "length (fst (process_excel_file B net clock md cfg rows dry_run s))
           = length rows - nat (s - 1)
       \<and> i - nat (s - 1) < length (fst (process_excel_file B net clock md cfg rows dry_run s))
       \<and> (\<forall>e. transform_excel_row_to_api B (clock i) md (rows ! i) = Inl e \<longrightarrow>
             fst (process_excel_file B net clock md cfg rows dry_run s) ! (i - nat (s - 1))
               = row_failed_result (int i + 1) e
           \<and> res_status (row_failed_result (int i + 1) e) = ''failed''
           \<and> res_error (row_failed_result (int i + 1) e) = Some (exc_message e))
       \<and> (\<forall>p e. \<not> dry_run \<and> transform_excel_row_to_api B (clock i) md (rows ! i) = Inr p
             \<and> fst (send_to_api B
                   (net (length (snd (process_excel_file B net clock md cfg (take i rows) dry_run s))))
                   cfg p) = Inl e \<longrightarrow>
             fst (process_excel_file B net clock md cfg rows dry_run s) ! (i - nat (s - 1))
               = handle_send_error (int i + 1) p e
           \<and> res_status (handle_send_error (int i + 1) p e) = ''failed''
           \<and> res_error (handle_send_error (int i + 1) p e) = Some (exc_message e))"
proof -
  note len = process_excel_file_length [of B net clock md cfg rows dry_run s]
  from assms len
  have pos: "i - nat (s - 1) < length (fst (process_excel_file B net clock md cfg rows dry_run s))"
    by simp
  note r = row_result_position [OF assms, of B net clock md cfg dry_run]
  have a: "fst (process_excel_file B net clock md cfg rows dry_run s) ! (i - nat (s - 1))
      = row_failed_result (int i + 1) e"
    if "transform_excel_row_to_api B (clock i) md (rows ! i) = Inl e" for e
    unfolding r using that
    by (cases "process_excel_file B net clock md cfg (take i rows) dry_run s")
      (simp add: process_row_def)
  have b: "fst (process_excel_file B net clock md cfg rows dry_run s) ! (i - nat (s - 1))
      = handle_send_error (int i + 1) p e"
    if "\<not> dry_run" "transform_excel_row_to_api B (clock i) md (rows ! i) = Inr p"
      "fst (send_to_api B
         (net (length (snd (process_excel_file B net clock md cfg (take i rows) dry_run s))))
         cfg p) = Inl e" for p e
    unfolding r using that
    by (cases "process_excel_file B net clock md cfg (take i rows) dry_run s")
      (auto simp: process_row_def split: prod.splits sum.splits)
  from len pos a b show ?thesis by (auto simp: failed_results)
qed

theorem failed_row_recorded_witness:
  "(0::nat) < length [package_row, empty_skuid_row] \<and> (1::int) \<le> int 0 + 1
   \<and> length (fst (process_excel_file ascii_builtins unreachable_net example_clock
         nan_note_mapping example_config [package_row, empty_skuid_row] True 1)) = 2
   \<and> fst (process_excel_file ascii_builtins unreachable_net example_clock
         nan_note_mapping example_config [package_row, empty_skuid_row] True 1) ! 0
       = row_failed_result 1 (no_attribute (VFloat FNaN) ''lower'')
   \<and> (\<exists>p. fst (process_excel_file ascii_builtins unreachable_net example_clock
         nan_note_mapping example_config [empty_skuid_row] False 1) ! 0
       = handle_send_error 1 p (RequestException ''connection refused'' None))"
proof -
  have a: "length (fst (process_excel_file ascii_builtins unreachable_net example_clock
        nan_note_mapping example_config [package_row, empty_skuid_row] True 1)) = 2
     \<and> fst (process_excel_file ascii_builtins unreachable_net example_clock
         nan_note_mapping example_config [package_row, empty_skuid_row] True 1) ! 0
       = row_failed_result 1 (no_attribute (VFloat FNaN) ''lower'')"
    using failed_row_recorded [of 0 "[package_row, empty_skuid_row]" 1 ascii_builtins
        unreachable_net example_clock nan_note_mapping example_config True]
      nan_note_transform_raises [of "example_clock 0"]
    by simp
  from nan_note_empty_skuid_returns obtain p where
    p: "transform_excel_row_to_api ascii_builtins (example_clock 0) nan_note_mapping
          empty_skuid_row = Inr p"
    by (auto simp: example_clock_def dest: returns_Inr)
  have s: "fst (send_to_api ascii_builtins (unreachable_net n) example_config p)
      = Inl (RequestException ''connection refused'' None)" for n
    by (simp add: unreachable_send)
  have b: "fst (process_excel_file ascii_builtins unreachable_net example_clock
         nan_note_mapping example_config [empty_skuid_row] False 1) ! 0
       = handle_send_error 1 p (RequestException ''connection refused'' None)"
    using failed_row_recorded [of 0 "[empty_skuid_row]" 1 ascii_builtins
        unreachable_net example_clock nan_note_mapping example_config False] p s
    by simp
  from a b show ?thesis by auto
qed

subsection \<open>Dry runs\<close>

lemma process_row_dry:
  "process_row B net clock md cfg True index r st
     = (fst st @ [dry_run_outcome B clock md index r], snd st)"
  by (cases st) (simp add: process_row_def dry_run_outcome_def split: sum.splits)

lemma process_rows_dry:
  "process_rows B net clock md cfg True s index rows st
     = (fst st @ map (\<lambda>(k, r). dry_run_outcome B clock md k r)
                   (filter (\<lambda>(k, r). s \<le> int k + 1) (enumerate index rows)),
        snd st)"
  by (induction rows arbitrary: index st) (simp_all add: process_row_dry)

text \<open>
  A dry run in which the only row fails: the note of the configured package type is NaN.
\<close>

theorem dry_run_failed_row:
  "map res_status (fst (process_excel_file ascii_builtins unreachable_net example_clock
      nan_note_mapping example_config [package_row] True 1)) = [''failed'']"
  by (simp add: process_excel_file_def process_row_dry dry_run_outcome_def
      nan_note_transform_raises row_failed_result_def)

text \<open>
  Claim C8, amended: a dry run sends no request, and its results are, for the rows from
  the start row on and in their order, the result with the status \<^verbatim>\<open>"dry_run"\<close> and the
  payload attached when the mapping of the row returns, and the result with the status
  \<^verbatim>\<open>"failed"\<close> and the error message when it raises.
\<close>

theorem dry_run_outcomes:
  "snd (process_excel_file B net clock md cfg rows True s) = []
   \<and> fst (process_excel_file B net clock md cfg rows True s)
       = map (\<lambda>(k, r). dry_run_outcome B clock md k r)
           (filter (\<lambda>(k, r). s \<le> int k + 1) (enumerate 0 rows))
   \<and> (\<forall>k r p. transform_excel_row_to_api B (clock k) md r = Inr p \<longrightarrow>
         dry_run_outcome B clock md k r = dry_run_result (int k + 1) p
       \<and> res_status (dry_run_result (int k + 1) p) = ''dry_run''
       \<and> res_payload (dry_run_result (int k + 1) p) = Some p)
   \<and> (\<forall>k r e. transform_excel_row_to_api B (clock k) md r = Inl e \<longrightarrow>
         dry_run_outcome B clock md k r = row_failed_result (int k + 1) e
       \<and> res_status (row_failed_result (int k + 1) e) = ''failed''
       \<and> res_error (row_failed_result (int k + 1) e) = Some (exc_message e))"
  by (simp add: process_excel_file_def process_rows_dry dry_run_outcome_def dry_run_result_def
      row_failed_result_def)

theorem dry_run_outcomes_witness:
  "snd (process_excel_file ascii_builtins unreachable_net example_clock nan_note_mapping
      example_config [package_row, empty_skuid_row] True 1) = []
   \<and> map res_status (fst (process_excel_file ascii_builtins unreachable_net example_clock
        nan_note_mapping example_config [package_row, empty_skuid_row] True 1))
       = [''failed'', ''dry_run'']"
proof -
  from nan_note_empty_skuid_returns obtain p where
    p: "transform_excel_row_to_api ascii_builtins (example_clock 1) nan_note_mapping
          empty_skuid_row = Inr p"
    by (auto simp: example_clock_def dest: returns_Inr)
  note e = nan_note_transform_raises [of "example_clock 0"]
  note t = dry_run_outcomes [of ascii_builtins unreachable_net example_clock nan_note_mapping
      example_config "[package_row, empty_skuid_row]" 1]
  from t p e have "dry_run_outcome ascii_builtins example_clock nan_note_mapping 1 empty_skuid_row
      = dry_run_result 2 p"
    "res_status (dry_run_result 2 p) = ''dry_run''"
    "dry_run_outcome ascii_builtins example_clock nan_note_mapping 0 package_row
      = row_failed_result 1 (no_attribute (VFloat FNaN) ''lower'')"
    "res_status (row_failed_result 1 (no_attribute (VFloat FNaN) ''lower'')) = ''failed''"
    by (simp_all add: dry_run_outcome_def dry_run_result_def row_failed_result_def)
  with t show ?thesis by (simp add: enumerate_simps)
qed

end
